theory Spec2Isabelle
  imports Complex_Main
begin

section \<open>Data model (schema.prisma)\<close>

text \<open>
  The three models of the Prisma schema.  \<open>Int\<close> columns are integers, \<open>String\<close> columns
  are strings, the optional relation scalar \<open>groupId Int?\<close> is an \<open>int option\<close>
  (\<open>None\<close> is SQL \<open>NULL\<close>).  A \<open>DateTime\<close> is the number of milliseconds since the epoch
  (what \<open>Date.getTime()\<close> returns).  A \<open>Float\<close> is a JavaScript number as a JSON body can
  carry it: a finite value, idealised as a real, or one of the two infinities (the JSON
  number \<open>1e400\<close> is read as \<open>Infinity\<close>); \<open>NaN\<close> has no JSON form.
\<close>

datatype number = Finite real | PosInfinity | NegInfinity

record User =
  user_id :: int
  user_name :: string
  user_email :: string
  user_password :: string
  user_groupId :: "int option"

record Spending =
  spending_id :: int
  spending_name :: string
  spending_day :: int
  spending_value :: number
  spending_userId :: int

record Group =
  group_id :: int
  group_name :: string
  group_password :: string

text \<open>
  The database: one table per model, rows in insertion order, and the sequence behind each
  \<open>@default(autoincrement())\<close> column, holding the last value handed out.
\<close>

record store =
  user_table :: "User list"
  group_table :: "Group list"
  spending_table :: "Spending list"
  user_id_seq :: int
  group_id_seq :: int
  spending_id_seq :: int

section \<open>Errors and responses\<close>

text \<open>
  What a Prisma call can throw: a query rejected by the client before it reaches the
  database (\<open>PrismaClientValidationError\<close>: a required argument is missing or has the wrong
  type), the known request errors \<open>P2002\<close> (unique constraint failed), \<open>P2003\<close>
  (foreign key constraint failed) and \<open>P2025\<close> (record to update not found), and
  \<open>ValueOutOfRange\<close>, the failure of a query one of whose \<open>Int\<close> arguments does not fit
  the 32-bit column it is compared with or written to.
\<close>

datatype prisma_error = PrismaClientValidationError | P2002 | P2003 | P2025 | ValueOutOfRange

text \<open>
  The exceptions a handler catches: \<open>Error msg\<close> is \<open>throw Error(msg)\<close> of the handler
  itself, \<open>PrismaError e\<close> an exception of the Prisma client, whose \<open>message\<close> is the
  library's text.  Message literals are written without their diacritics.
\<close>

datatype error = Error string | PrismaError prisma_error

record user_view =
  uv_id :: int
  uv_name :: string
  uv_email :: string
  uv_spendings :: "Spending list"

record group_view =
  gv_id :: int
  gv_name :: string
  gv_users :: "user_view list"

text \<open>The \<open>data\<close> member of a success body, one constructor per shape the handlers send.\<close>

datatype data =
    IdData int
  | UserToken int string
  | GroupList "group_view list"
  | SpendingList "Spending list"

text \<open>
  A response body is \<open>{error: message}\<close>, \<open>{message: ..., data: ...}\<close>, or the bare status
  text that \<open>res.sendStatus\<close> sends.
\<close>

datatype body = ErrorBody error | MessageBody string data | StatusBody

record response =
  statusCode :: nat
  payload :: body

definition sendStatus :: "nat \<Rightarrow> response" where
  "sendStatus c = \<lparr>statusCode = c, payload = StatusBody\<rparr>"

text \<open>The \<open>catch (error)\<close> block every handler ends with.\<close>

definition catch400 :: "error \<Rightarrow> response" where
  "catch400 e = \<lparr>statusCode = 400, payload = ErrorBody e\<rparr>"

section \<open>The runtime: libraries and built-ins the controllers call\<close>

text \<open>
  bcryptjs, jsonwebtoken (with the secret of \<open>middleware/JWTsecret.js\<close>) and the JavaScript
  built-ins are not part of the repository; the handlers take them as a parameter.
  \<^item> \<open>hashSync password salt\<close> and \<open>compareSync password hash\<close> are bcrypt's;
  \<^item> \<open>jwt_sign id email\<close> is \<open>jwt.sign({id, email}, JWTsecret, {expiresIn: '15d'}, cb)\<close>:
    \<open>Some token\<close> when the callback receives a token, \<open>None\<close> when it receives \<open>err\<close>;
  \<^item> \<open>date_getTime s\<close> is \<open>new Date(s).getTime()\<close>, with \<open>None\<close> for \<open>NaN\<close>
    (an invalid date);
  \<^item> \<open>isNaN s\<close> and \<open>parseInt s\<close> are the built-ins on a string, \<open>parseInt\<close> giving
    \<open>None\<close> for \<open>NaN\<close>;
  \<^item> \<open>accepts_DateTime t\<close> tells whether the Prisma client and the \<open>TIMESTAMP(3)\<close>
    column take the timestamp \<open>t\<close>: a JavaScript date reaches further into the past
    than the column, and the wire format of the client has limits of its own.
\<close>

record runtime =
  hashSync :: "string \<Rightarrow> string \<Rightarrow> string"
  compareSync :: "string \<Rightarrow> string \<Rightarrow> bool"
  jwt_sign :: "int \<Rightarrow> string \<Rightarrow> string option"
  date_getTime :: "string \<Rightarrow> int option"
  isNaN :: "string \<Rightarrow> bool"
  parseInt :: "string \<Rightarrow> int option"
  accepts_DateTime :: "int \<Rightarrow> bool"

text \<open>
  Request bodies are JSON objects whose members have the types the handlers' OpenAPI
  blocks declare; a member is \<open>None\<close> when the request leaves it out.  \<open>!x\<close> is then true
  for a missing member and for the falsy value of its type.
\<close>

definition falsy_str :: "string option \<Rightarrow> bool" where
  "falsy_str x = (case x of None \<Rightarrow> True | Some v \<Rightarrow> v = [])"

definition falsy_int :: "int option \<Rightarrow> bool" where
  "falsy_int x = (case x of None \<Rightarrow> True | Some v \<Rightarrow> v = 0)"

definition falsy_num :: "number option \<Rightarrow> bool" where
  "falsy_num x = (case x of None \<Rightarrow> True | Some v \<Rightarrow> v = Finite 0)"

text \<open>
  A query that is not awaited is a pending promise object wrapping the result it would
  resolve to.  An object is never \<open>== null\<close>, whatever it wraps.
\<close>

datatype 'a PrismaPromise = PrismaPromise 'a

fun promise_neq_null :: "'a PrismaPromise \<Rightarrow> bool" where
  "promise_neq_null (PrismaPromise r) = True"

section \<open>The Prisma client over the store\<close>

text \<open>
  The \<open>Int\<close> columns are PostgreSQL \<open>INTEGER\<close>s: 32-bit signed.  The queries the
  reading handlers and the spending handler make fail when their \<open>Int\<close> argument is
  outside that range.
\<close>

definition int4 :: "int \<Rightarrow> bool" where
  "int4 i = (- 2147483648 \<le> i \<and> i \<le> 2147483647)"

definition prisma_user_findUnique_email :: "store \<Rightarrow> string \<Rightarrow> User option" where
  "prisma_user_findUnique_email s e = find (\<lambda>u. user_email u = e) (user_table s)"

definition prisma_user_findUnique_id :: "store \<Rightarrow> int \<Rightarrow> User option" where
  "prisma_user_findUnique_id s i = find (\<lambda>u. user_id u = i) (user_table s)"

definition prisma_group_findUnique_name :: "store \<Rightarrow> string \<Rightarrow> Group option" where
  "prisma_group_findUnique_name s n = find (\<lambda>g. group_name g = n) (group_table s)"

definition prisma_group_findUnique_id :: "store \<Rightarrow> int \<Rightarrow> Group option" where
  "prisma_group_findUnique_id s i = find (\<lambda>g. group_id g = i) (group_table s)"

text \<open>
  \<open>prisma.user.create({data: {name, email, password}})\<close>.  The row takes the next value
  of the sequence (consumed even when the insert then fails) and a \<open>NULL\<close> groupId;
  \<open>email\<close> is \<open>@unique\<close>.
\<close>

definition prisma_user_create ::
  "store \<Rightarrow> string \<Rightarrow> string \<Rightarrow> string \<Rightarrow> store \<times> (prisma_error + User)" where
  "prisma_user_create s n e p =
     (let i = user_id_seq s + 1;
          s1 = s\<lparr>user_id_seq := i\<rparr>;
          u = \<lparr>user_id = i, user_name = n, user_email = e, user_password = p,
               user_groupId = None\<rparr>
      in if prisma_user_findUnique_email s e \<noteq> None then (s1, Inl P2002)
         else (s1\<lparr>user_table := user_table s @ [u]\<rparr>, Inr u))"

text \<open>\<open>prisma.group.create({data: {name, password}})\<close>; \<open>name\<close> is \<open>@unique\<close>.\<close>

definition prisma_group_create ::
  "store \<Rightarrow> string \<Rightarrow> string \<Rightarrow> store \<times> (prisma_error + Group)" where
  "prisma_group_create s n p =
     (let i = group_id_seq s + 1;
          s1 = s\<lparr>group_id_seq := i\<rparr>;
          g = \<lparr>group_id = i, group_name = n, group_password = p\<rparr>
      in if prisma_group_findUnique_name s n \<noteq> None then (s1, Inl P2002)
         else (s1\<lparr>group_table := group_table s @ [g]\<rparr>, Inr g))"

text \<open>
  \<open>prisma.user.update({where: {id}, data: {groupId}})\<close>: throws \<open>P2025\<close> when no user has
  that id and \<open>P2003\<close> when the new groupId references no group; otherwise returns the
  updated row.
\<close>

definition prisma_user_update_groupId ::
  "store \<Rightarrow> int \<Rightarrow> int option \<Rightarrow> store \<times> (prisma_error + User)" where
  "prisma_user_update_groupId s i g =
     (case prisma_user_findUnique_id s i of
        None \<Rightarrow> (s, Inl P2025)
      | Some u \<Rightarrow>
          if (case g of None \<Rightarrow> False | Some gid \<Rightarrow> prisma_group_findUnique_id s gid = None)
          then (s, Inl P2003)
          else (s\<lparr>user_table :=
                    map (\<lambda>x. if user_id x = i then x\<lparr>user_groupId := g\<rparr> else x)
                      (user_table s)\<rparr>,
                Inr (u\<lparr>user_groupId := g\<rparr>)))"

text \<open>
  \<open>prisma.spending.create({data: {name, day, value, userId}})\<close>.  \<open>name\<close> is a required
  \<open>String\<close> of the model and \<open>value\<close> a \<open>Float\<close>: leaving the name undefined, or giving
  an infinity for the value, is rejected by the client.  A day that is no acceptable
  \<open>DateTime\<close> and a \<open>userId\<close> outside the 32-bit range make the query fail as well.  In
  all these cases no statement reaches the table and the sequence keeps its value.
  Otherwise the row takes the next value of the sequence (consumed even when the insert
  then fails); \<open>userId\<close> references \<open>User.id\<close>.
\<close>

definition prisma_spending_create ::
  "runtime \<Rightarrow> store \<Rightarrow> string option \<Rightarrow> int \<Rightarrow> number \<Rightarrow> int
     \<Rightarrow> store \<times> (prisma_error + Spending)" where
  "prisma_spending_create rt s name d v uid =
     (case name of
        None \<Rightarrow> (s, Inl PrismaClientValidationError)
      | Some n \<Rightarrow>
          (case v of
             PosInfinity \<Rightarrow> (s, Inl PrismaClientValidationError)
           | NegInfinity \<Rightarrow> (s, Inl PrismaClientValidationError)
           | Finite x \<Rightarrow>
               if \<not> accepts_DateTime rt d then (s, Inl PrismaClientValidationError)
               else if \<not> int4 uid then (s, Inl ValueOutOfRange)
               else
                 (let i = spending_id_seq s + 1;
                      s1 = s\<lparr>spending_id_seq := i\<rparr>;
                      sp = \<lparr>spending_id = i, spending_name = n, spending_day = d,
                            spending_value = v, spending_userId = uid\<rparr>
                  in if prisma_user_findUnique_id s uid = None then (s1, Inl P2003)
                     else (s1\<lparr>spending_table := spending_table s @ [sp]\<rparr>, Inr sp))))"

text \<open>The spendings of a user: the rows whose \<open>userId\<close> is the user's id.\<close>

definition spendings_of :: "store \<Rightarrow> int \<Rightarrow> Spending list" where
  "spendings_of s uid = filter (\<lambda>sp. spending_userId sp = uid) (spending_table s)"

text \<open>\<open>prisma.spending.findMany({where: {userId}})\<close>: the raw rows.\<close>

definition prisma_spending_findMany :: "store \<Rightarrow> int \<Rightarrow> prisma_error + Spending list" where
  "prisma_spending_findMany s uid =
     (if int4 uid then Inr (spendings_of s uid) else Inl ValueOutOfRange)"

text \<open>
  The selection \<open>{id: true, name: true, users: {select: {id: true, name: true, email: true,
  spendings: true}}}\<close> of both group queries: the members of a group are the users whose
  groupId is the group's id, a user's spendings the rows whose userId is the user's id.
\<close>

definition select_user :: "store \<Rightarrow> User \<Rightarrow> user_view" where
  "select_user s u =
     \<lparr>uv_id = user_id u, uv_name = user_name u, uv_email = user_email u,
      uv_spendings = spendings_of s (user_id u)\<rparr>"

definition select_group :: "store \<Rightarrow> Group \<Rightarrow> group_view" where
  "select_group s g =
     \<lparr>gv_id = group_id g, gv_name = group_name g,
      gv_users = map (select_user s)
                   (filter (\<lambda>u. user_groupId u = Some (group_id g)) (user_table s))\<rparr>"

text \<open>
  \<open>prisma.group.findMany({where, select})\<close>: \<open>wh\<close> is \<open>None\<close> for the query without a
  \<open>where\<close> and \<open>Some i\<close> for \<open>where: {id: i}\<close>.
\<close>

definition prisma_group_findMany :: "store \<Rightarrow> int option \<Rightarrow> prisma_error + group_view list" where
  "prisma_group_findMany s wh =
     (case wh of
        None \<Rightarrow> Inr (map (select_group s) (group_table s))
      | Some i \<Rightarrow>
          if int4 i then Inr (map (select_group s) (filter (\<lambda>g. group_id g = i) (group_table s)))
          else Inl ValueOutOfRange)"

section \<open>UserController: registration and login\<close>

text \<open>
  \<open>POST /user\<close>.  \<open>salt\<close> is the salt \<open>bcrypt.genSaltSync(10)\<close> draws during the request.
  The existence query is not awaited, so \<open>existUser\<close> is the pending promise.
\<close>

definition register ::
  "runtime \<Rightarrow> string \<Rightarrow> store \<Rightarrow> string option \<Rightarrow> string option \<Rightarrow> string option
     \<Rightarrow> store \<times> response" where
  "register rt salt s name email password =
     (if falsy_str name \<or> name = Some [] then (s, catch400 (Error ''Nome e obrigatorio!''))
      else if falsy_str email \<or> email = Some []
        then (s, catch400 (Error ''Email e obrigatorio!''))
      else if falsy_str password \<or> password = Some []
        then (s, catch400 (Error ''Senha e obrigatoria!''))
      else
        let existUser = PrismaPromise (prisma_user_findUnique_email s (the email))
        in if promise_neq_null existUser then
             (let hash = hashSync rt (the password) salt
              in case prisma_user_create s (the name) (the email) hash of
                   (s1, Inl e) \<Rightarrow> (s1, catch400 (PrismaError e))
                 | (s1, Inr user) \<Rightarrow>
                     (s1, \<lparr>statusCode = 201,
                           payload = MessageBody ''Usuario cadastrado com sucesso!''
                                       (IdData (user_id user))\<rparr>))
           else (s, \<lparr>statusCode = 400, payload = ErrorBody (Error ''Email ja'')\<rparr>))"

text \<open>\<open>POST /login\<close>.  The handler only reads the store.\<close>

definition login :: "runtime \<Rightarrow> store \<Rightarrow> string option \<Rightarrow> string option \<Rightarrow> response" where
  "login rt s email password =
     (if falsy_str email \<or> email = Some [] \<or> falsy_str password \<or> password = Some []
        then catch400 (Error ''Email ou senha invalidos'')
      else
        case prisma_user_findUnique_email s (the email) of
          Some user \<Rightarrow>
            if \<not> compareSync rt (the password) (user_password user)
              then catch400 (Error ''Email ou senha incorretos!'')
            else (case jwt_sign rt (user_id user) (user_email user) of
                    None \<Rightarrow> sendStatus 500
                  | Some token \<Rightarrow>
                      \<lparr>statusCode = 200,
                       payload = MessageBody ''Login efetuado com sucesso!''
                                   (UserToken (user_id user) token)\<rparr>)
        | None \<Rightarrow> \<lparr>statusCode = 404, payload = ErrorBody (Error ''Usuario nao encontrado!'')\<rparr>)"

section \<open>GroupController\<close>

text \<open>
  The group handlers run behind the \<open>auth\<close> middleware; they are modelled from the point
  where it has passed the request on.  \<open>res.send\<close> without a status set answers 200.
\<close>

definition listGroups :: "store \<Rightarrow> response" where
  "listGroups s =
     (case prisma_group_findMany s None of
        Inl e \<Rightarrow> catch400 (PrismaError e)
      | Inr groups \<Rightarrow>
          \<lparr>statusCode = 200,
           payload = MessageBody ''Grupos obtido com sucesso!'' (GroupList groups)\<rparr>)"

text \<open>
  \<open>GET /group/:id\<close>; \<open>p\<close> is \<open>req.params.id\<close>.  When \<open>parseInt\<close> gives \<open>NaN\<close> the filter
  is not an \<open>Int\<close> and the client rejects the query.
\<close>

definition getGroup :: "runtime \<Rightarrow> store \<Rightarrow> string \<Rightarrow> response" where
  "getGroup rt s p =
     (if \<not> isNaN rt p then
        (case parseInt rt p of
           None \<Rightarrow> catch400 (PrismaError PrismaClientValidationError)
         | Some groupID \<Rightarrow>
             (case prisma_group_findMany s (Some groupID) of
                Inl e \<Rightarrow> catch400 (PrismaError e)
              | Inr grp \<Rightarrow>
                  \<lparr>statusCode = 200,
                   payload = MessageBody ''Grupo obtido com sucesso!'' (GroupList grp)\<rparr>))
      else sendStatus 400)"

text \<open>
  \<open>POST /group\<close>; \<open>grp\<close> is the source's \<open>group\<close>.  The membership update looks the user
  up by \<open>group.id\<close>.
\<close>

definition createGroup ::
  "runtime \<Rightarrow> string \<Rightarrow> store \<Rightarrow> int option \<Rightarrow> string option \<Rightarrow> string option
     \<Rightarrow> store \<times> response" where
  "createGroup rt salt s userId name password =
     (if falsy_int userId \<or> userId = Some 0
        then (s, catch400 (Error ''E necessario um usuario para criar o grupo!''))
      else if falsy_str name \<or> name = Some [] then (s, catch400 (Error ''Nome e obrigatorio!''))
      else if falsy_str password \<or> password = Some []
        then (s, catch400 (Error ''Senha e obrigatoria''))
      else
        case prisma_group_findUnique_name s (the name) of
          None \<Rightarrow>
            (let hash = hashSync rt (the password) salt
             in case prisma_group_create s (the name) hash of
                  (s1, Inl e) \<Rightarrow> (s1, catch400 (PrismaError e))
                | (s1, Inr grp) \<Rightarrow>
                    (case prisma_user_update_groupId s1 (group_id grp) (Some (group_id grp)) of
                       (s2, Inl e) \<Rightarrow> (s2, catch400 (PrismaError e))
                     | (s2, Inr user) \<Rightarrow>
                         (s2, \<lparr>statusCode = 201,
                               payload = MessageBody ''Grupo cadastrado com sucesso!''
                                           (IdData (group_id grp))\<rparr>)))
        | Some existGroup \<Rightarrow> (s, catch400 (Error ''Ja existe um grupo com esse nome!'')))"

text \<open>\<open>POST /group/join\<close>.\<close>

definition joinGroup ::
  "runtime \<Rightarrow> store \<Rightarrow> int option \<Rightarrow> int option \<Rightarrow> string option \<Rightarrow> store \<times> response" where
  "joinGroup rt s userId groupId password =
     (if falsy_int userId \<or> userId = Some 0
        then (s, catch400 (Error ''E necessario um usuario para criar o grupo!''))
      else if falsy_int groupId \<or> groupId = Some 0
        then (s, catch400 (Error ''E necessario um usuario para criar o grupo!''))
      else if falsy_str password \<or> password = Some []
        then (s, catch400 (Error ''Senha e obrigatoria!''))
      else
        case prisma_group_findUnique_id s (the groupId) of
          Some grp \<Rightarrow>
            if compareSync rt (the password) (group_password grp) then
              (case prisma_user_update_groupId s (the userId) groupId of
                 (s1, Inl e) \<Rightarrow> (s1, catch400 (PrismaError e))
               | (s1, Inr user) \<Rightarrow>
                   (s1, \<lparr>statusCode = 201,
                         payload = MessageBody ''Usuario adicionado com sucesso!''
                                     (IdData (user_id user))\<rparr>))
            else (s, catch400 (Error ''Senha incorreta!''))
        | None \<Rightarrow> (s, catch400 (Error ''Ja existe um grupo com esse nome!'')))"

text \<open>\<open>POST /group/leave\<close>.\<close>

definition leaveGroup :: "store \<Rightarrow> int option \<Rightarrow> int option \<Rightarrow> store \<times> response" where
  "leaveGroup s userId groupId =
     (if falsy_int userId \<or> userId = Some 0
        then (s, catch400 (Error ''E necessario um usuario para criar o grupo!''))
      else if falsy_int groupId \<or> groupId = Some 0
        then (s, catch400 (Error ''E necessario um usuario para criar o grupo!''))
      else
        case prisma_group_findUnique_id s (the groupId) of
          Some grp \<Rightarrow>
            (case prisma_user_update_groupId s (the userId) None of
               (s1, Inl e) \<Rightarrow> (s1, catch400 (PrismaError e))
             | (s1, Inr user) \<Rightarrow>
                 (s1, \<lparr>statusCode = 201,
                       payload = MessageBody ''Usuario removido com sucesso!''
                                   (IdData (user_id user))\<rparr>))
        | None \<Rightarrow> (s, \<lparr>statusCode = 400, payload = ErrorBody (Error ''Grupo nao encontrado!'')\<rparr>))"

section \<open>SpendingController\<close>

text \<open>
  \<open>GET /spending/:userId\<close>; \<open>p\<close> is \<open>req.params.userId\<close>.  This handler has no
  \<open>try\<close>/\<open>catch\<close>: when the query throws (the filter is \<open>NaN\<close>, or outside the 32-bit
  range) the rejection is not handled and no response is sent, which is the result
  \<open>None\<close>.
\<close>

definition listByUser :: "runtime \<Rightarrow> store \<Rightarrow> string \<Rightarrow> response option" where
  "listByUser rt s p =
     (if \<not> isNaN rt p then
        (case parseInt rt p of
           None \<Rightarrow> None
         | Some userId \<Rightarrow>
             (case prisma_spending_findMany s userId of
                Inl e \<Rightarrow> None
              | Inr spendings \<Rightarrow>
                  Some \<lparr>statusCode = 200,
                        payload = MessageBody ''Lista de gastos obtidas com sucesso!''
                                    (SpendingList spendings)\<rparr>))
      else Some (sendStatus 400))"

text \<open>\<open>POST /spending\<close>.\<close>

definition create ::
  "runtime \<Rightarrow> store \<Rightarrow> int option \<Rightarrow> string option \<Rightarrow> number option \<Rightarrow> string option
     \<Rightarrow> store \<times> response" where
  "create rt s userId day val name =
     (if falsy_int userId \<or> userId = Some 0
        then (s, catch400 (Error ''Um gasto deve estar relacionado a um usuario!''))
      else if falsy_str day \<or> day = Some [] then (s, catch400 (Error ''Dia e obrigatorio!''))
      else if falsy_num val \<or> val = Some (Finite 0)
        then (s, catch400 (Error ''Valor e obrigatorio!''))
      else
        case date_getTime rt (the day) of
          None \<Rightarrow> (s, catch400 (Error ''Formato de data invalido!''))
        | Some date \<Rightarrow>
            (case prisma_spending_create rt s name date (the val) (the userId) of
               (s1, Inl e) \<Rightarrow> (s1, catch400 (PrismaError e))
             | (s1, Inr spending) \<Rightarrow>
                 (s1, \<lparr>statusCode = 201,
                       payload = MessageBody ''Gasto cadastrado com sucesso!''
                                   (IdData (spending_id spending))\<rparr>)))"

section \<open>Stores that differ only in password hashes\<close>

text \<open>
  \<open>hide_passwords\<close> blanks every stored hash and keeps everything else; two stores with
  the same image differ at most in the password columns.
\<close>

definition hide_passwords :: "store \<Rightarrow> store" where
  "hide_passwords s =
     s\<lparr>user_table := map (\<lambda>u. u\<lparr>user_password := []\<rparr>) (user_table s),
       group_table := map (\<lambda>g. g\<lparr>group_password := []\<rparr>) (group_table s)\<rparr>"

section \<open>A concrete runtime and database\<close>

text \<open>
  A small runtime on which the handlers can be run: hashing prefixes the salt, the only
  salt is \<open>$s$\<close>, two ISO dates are known (one of 2024 and the first day of the year
  -100000, long before the first day a \<open>TIMESTAMP\<close> column holds), the timestamps of the
  years 0000 to 9999 are acceptable, and path parameters are read as plain decimal
  numerals.
\<close>

definition is_digit :: "char \<Rightarrow> bool" where
  "is_digit c = (c \<in> set ''0123456789'')"

fun decimal :: "int \<Rightarrow> string \<Rightarrow> int" where
  "decimal acc [] = acc"
| "decimal acc (c # cs) = decimal (10 * acc + (int (of_char c) - 48)) cs"

definition sample_runtime :: runtime where
  "sample_runtime =
     \<lparr>hashSync = (\<lambda>pw salt. salt @ pw),
      compareSync = (\<lambda>pw h. h = ''$s$'' @ pw),
      jwt_sign = (\<lambda>i e. Some (''jwt.'' @ e)),
      date_getTime =
        (\<lambda>d. if d = ''2024-09-03T12:34:56Z'' then Some 1725366896000
             else if d = ''-100000-01-01T00:00:00.000Z'' then Some (- 3217862419200000)
             else None),
      isNaN = (\<lambda>p. \<not> list_all is_digit p),
      parseInt = (\<lambda>p. if p \<noteq> [] \<and> list_all is_digit p then Some (decimal 0 p) else None),
      accepts_DateTime = (\<lambda>t. - 62167219200000 \<le> t \<and> t \<le> 253402300799999)\<rparr>"

definition alice :: User where
  "alice = \<lparr>user_id = 1, user_name = ''Alice'', user_email = ''alice@example.com'',
            user_password = ''$s$wonderland'', user_groupId = None\<rparr>"

definition bob :: User where
  "bob = \<lparr>user_id = 2, user_name = ''Bob'', user_email = ''bob@example.com'',
          user_password = ''$s$builder'', user_groupId = Some 1\<rparr>"

definition carol :: User where
  "carol = \<lparr>user_id = 3, user_name = ''Carol'', user_email = ''carol@example.com'',
            user_password = ''$s$singer'', user_groupId = None\<rparr>"

definition family :: Group where
  "family = \<lparr>group_id = 1, group_name = ''family'', group_password = ''$s$secret''\<rparr>"

definition flat :: Group where
  "flat = \<lparr>group_id = 2, group_name = ''flat'', group_password = ''$s$rent''\<rparr>"

definition coffee :: Spending where
  "coffee = \<lparr>spending_id = 1, spending_name = ''coffee'', spending_day = 1725366896000,
             spending_value = Finite (9 / 2), spending_userId = 2\<rparr>"

definition sample_store :: store where
  "sample_store =
     \<lparr>user_table = [alice, bob, carol], group_table = [family, flat],
      spending_table = [coffee], user_id_seq = 3, group_id_seq = 2, spending_id_seq = 1\<rparr>"

text \<open>The sample database with two hashes replaced.\<close>

definition rehashed_store :: store where
  "rehashed_store =
     sample_store\<lparr>user_table := [alice, bob\<lparr>user_password := ''$s$plumber''\<rparr>, carol],
                  group_table := [family\<lparr>group_password := ''$s$changed''\<rparr>, flat]\<rparr>"

section \<open>Auxiliary facts\<close>

lemmas sample_defs = sample_runtime_def sample_store_def alice_def bob_def carol_def
  family_def flat_def coffee_def is_digit_def

lemmas prisma_defs = prisma_user_findUnique_email_def prisma_user_findUnique_id_def
  prisma_group_findUnique_name_def prisma_group_findUnique_id_def prisma_user_create_def
  prisma_group_create_def prisma_user_update_groupId_def prisma_spending_create_def
  prisma_spending_findMany_def spendings_of_def select_user_def select_group_def
  prisma_group_findMany_def int4_def

lemmas js_defs = falsy_str_def falsy_int_def falsy_num_def catch400_def sendStatus_def

lemma find_user_id_eq: "find (\<lambda>u. user_id u = i) xs = Some u \<Longrightarrow> user_id u = i"
  by (auto simp: find_Some_iff)

lemma find_updated_user:
  "find (\<lambda>u. user_id u = i)
     (map (\<lambda>x. if user_id x = i then x\<lparr>user_groupId := g\<rparr> else x) xs) =
   map_option (\<lambda>u. u\<lparr>user_groupId := g\<rparr>) (find (\<lambda>u. user_id u = i) xs)"
  by (induction xs) auto

lemma update_groupId_missing:
  "prisma_user_findUnique_id s i = None \<Longrightarrow> prisma_user_update_groupId s i g = (s, Inl P2025)"
  by (simp add: prisma_user_update_groupId_def)

lemma update_groupId_null:
  assumes "prisma_user_findUnique_id s i = Some u"
  shows "snd (prisma_user_update_groupId s i None) = Inr (u\<lparr>user_groupId := None\<rparr>)"
    and "prisma_user_findUnique_id (fst (prisma_user_update_groupId s i None)) i =
           Some (u\<lparr>user_groupId := None\<rparr>)"
  using assms
  by (simp_all add: prisma_user_update_groupId_def prisma_user_findUnique_id_def find_updated_user)

lemma update_groupId_some:
  assumes "prisma_user_findUnique_id s i = Some u" and "prisma_group_findUnique_id s g = Some grp"
  shows "snd (prisma_user_update_groupId s i (Some g)) = Inr (u\<lparr>user_groupId := Some g\<rparr>)"
    and "prisma_user_findUnique_id (fst (prisma_user_update_groupId s i (Some g))) i =
           Some (u\<lparr>user_groupId := Some g\<rparr>)"
  using assms
  by (simp_all add: prisma_user_update_groupId_def prisma_user_findUnique_id_def find_updated_user)

section \<open>Leaving a group\<close>

text \<open>
  Claim C10.  \<open>leaveGroup\<close> never checks membership: for an existing group \<open>g\<close> and an
  existing user \<open>u\<close> (both ids non-zero, as the presence checks demand), the request
  succeeds with 201 and the user's id, and the user's groupId is \<open>NULL\<close> afterwards.
  Nothing is assumed about the groupId the user had before: it may be \<open>g\<close>, another
  group, or already \<open>NULL\<close>.  Only the existence of \<open>g\<close> is looked at.
\<close>

theorem leaveGroup_no_membership_check:
  assumes "u \<noteq> 0" and "g \<noteq> 0"
    and "prisma_group_findUnique_id s g = Some grp"
    and "prisma_user_findUnique_id s u = Some usr"
  shows "snd (leaveGroup s (Some u) (Some g)) =
           \<lparr>statusCode = 201,
            payload = MessageBody ''Usuario removido com sucesso!'' (IdData u)\<rparr>
       \<and> prisma_user_findUnique_id (fst (leaveGroup s (Some u) (Some g))) u =
           Some (usr\<lparr>user_groupId := None\<rparr>)"
proof -
  have id: "user_id usr = u"
    using assms(4) unfolding prisma_user_findUnique_id_def by (rule find_user_id_eq)
  obtain s1 where upd: "prisma_user_update_groupId s u None = (s1, Inr (usr\<lparr>user_groupId := None\<rparr>))"
    using update_groupId_null(1)[OF assms(4)] by (cases "prisma_user_update_groupId s u None") auto
  have look: "prisma_user_findUnique_id s1 u = Some (usr\<lparr>user_groupId := None\<rparr>)"
    using update_groupId_null(2)[OF assms(4)] upd by simp
  show ?thesis
    using assms(1-3) upd look id by (simp add: leaveGroup_def falsy_int_def)
qed

text \<open>
  Bob is a member of group 1 and leaves group 2, of which he is no member: the request
  succeeds and clears his membership of group 1.
\<close>

theorem leaveGroup_no_membership_check_witness:
  "(2::int) \<noteq> 0
   \<and> prisma_group_findUnique_id sample_store 2 = Some flat
   \<and> prisma_user_findUnique_id sample_store 2 = Some bob
   \<and> user_groupId bob = Some 1
   \<and> snd (leaveGroup sample_store (Some 2) (Some 2)) =
           \<lparr>statusCode = 201,
            payload = MessageBody ''Usuario removido com sucesso!'' (IdData 2)\<rparr>
   \<and> prisma_user_findUnique_id (fst (leaveGroup sample_store (Some 2) (Some 2))) 2 =
           Some (bob\<lparr>user_groupId := None\<rparr>)"
proof -
  have nz: "(2::int) \<noteq> 0" by simp
  have grp: "prisma_group_findUnique_id sample_store 2 = Some flat"
    by (simp add: prisma_group_findUnique_id_def sample_defs)
  have usr: "prisma_user_findUnique_id sample_store 2 = Some bob"
    by (simp add: prisma_user_findUnique_id_def sample_defs)
  have mem: "user_groupId bob = Some 1" by (simp add: bob_def)
  show ?thesis
    using leaveGroup_no_membership_check [OF nz nz grp usr] nz grp usr mem by simp
qed




section \<open>Joining a group\<close>

text \<open>
  Claim C4, as amended.  For a \<open>joinGroup\<close> request with both ids non-zero and a non-empty
  password:
  \<^item> if no group has the id \<open>g\<close>, the request is rejected with status 400 and the store is
    unchanged;
  \<^item> if the group exists and the password does not verify against the group's stored
    hash, the request is rejected with status 400 and \<open>Senha incorreta!\<close>;
  \<^item> if the password verifies but no user has the id \<open>u\<close>, the update throws \<open>P2025\<close> and
    the request is rejected with status 400, the store unchanged;
  \<^item> otherwise the answer is 201 with the user's id, and the user's groupId is exactly
    \<open>g\<close> afterwards.
\<close>

theorem joinGroup_results:
  assumes "u \<noteq> 0" and "g \<noteq> 0" and "p \<noteq> []"
  shows "(prisma_group_findUnique_id s g = None \<longrightarrow>
            fst (joinGroup rt s (Some u) (Some g) (Some p)) = s
            \<and> statusCode (snd (joinGroup rt s (Some u) (Some g) (Some p))) = 400)
       \<and> (\<forall>grp. prisma_group_findUnique_id s g = Some grp
                \<and> \<not> compareSync rt p (group_password grp) \<longrightarrow>
            joinGroup rt s (Some u) (Some g) (Some p) =
              (s, catch400 (Error ''Senha incorreta!'')))
       \<and> (\<forall>grp. prisma_group_findUnique_id s g = Some grp
                \<and> compareSync rt p (group_password grp)
                \<and> prisma_user_findUnique_id s u = None \<longrightarrow>
            joinGroup rt s (Some u) (Some g) (Some p) = (s, catch400 (PrismaError P2025)))
       \<and> (\<forall>grp usr. prisma_group_findUnique_id s g = Some grp
                \<and> compareSync rt p (group_password grp)
                \<and> prisma_user_findUnique_id s u = Some usr \<longrightarrow>
            snd (joinGroup rt s (Some u) (Some g) (Some p)) =
              \<lparr>statusCode = 201,
               payload = MessageBody ''Usuario adicionado com sucesso!'' (IdData u)\<rparr>
            \<and> prisma_user_findUnique_id (fst (joinGroup rt s (Some u) (Some g) (Some p))) u =
                Some (usr\<lparr>user_groupId := Some g\<rparr>))"
proof (intro conjI impI allI)
  assume "prisma_group_findUnique_id s g = None"
  then show "fst (joinGroup rt s (Some u) (Some g) (Some p)) = s"
    and "statusCode (snd (joinGroup rt s (Some u) (Some g) (Some p))) = 400"
    using assms by (simp_all add: joinGroup_def falsy_int_def falsy_str_def catch400_def)
next
  fix grp
  assume "prisma_group_findUnique_id s g = Some grp \<and> \<not> compareSync rt p (group_password grp)"
  then show "joinGroup rt s (Some u) (Some g) (Some p) = (s, catch400 (Error ''Senha incorreta!''))"
    using assms by (simp add: joinGroup_def falsy_int_def falsy_str_def)
next
  fix grp
  assume "prisma_group_findUnique_id s g = Some grp \<and> compareSync rt p (group_password grp)
            \<and> prisma_user_findUnique_id s u = None"
  then show "joinGroup rt s (Some u) (Some g) (Some p) = (s, catch400 (PrismaError P2025))"
    using assms by (simp add: joinGroup_def falsy_int_def falsy_str_def update_groupId_missing)
next
  fix grp usr
  assume h: "prisma_group_findUnique_id s g = Some grp \<and> compareSync rt p (group_password grp)
            \<and> prisma_user_findUnique_id s u = Some usr"
  then have usr: "prisma_user_findUnique_id s u = Some usr"
    and grp: "prisma_group_findUnique_id s g = Some grp" by simp_all
  have id: "user_id usr = u"
    using usr unfolding prisma_user_findUnique_id_def by (rule find_user_id_eq)
  obtain s1 where upd:
    "prisma_user_update_groupId s u (Some g) = (s1, Inr (usr\<lparr>user_groupId := Some g\<rparr>))"
    using update_groupId_some(1)[OF usr grp]
    by (cases "prisma_user_update_groupId s u (Some g)") auto
  have look: "prisma_user_findUnique_id s1 u = Some (usr\<lparr>user_groupId := Some g\<rparr>)"
    using update_groupId_some(2)[OF usr grp] upd by simp
  from h assms upd id
  show "snd (joinGroup rt s (Some u) (Some g) (Some p)) =
      \<lparr>statusCode = 201, payload = MessageBody ''Usuario adicionado com sucesso!'' (IdData u)\<rparr>"
    by (simp add: joinGroup_def falsy_int_def falsy_str_def)
  from h assms upd look
  show "prisma_user_findUnique_id (fst (joinGroup rt s (Some u) (Some g) (Some p))) u =
      Some (usr\<lparr>user_groupId := Some g\<rparr>)"
    by (simp add: joinGroup_def falsy_int_def falsy_str_def)
qed

text \<open>The four cases on the sample database.\<close>

theorem joinGroup_results_witness:
  "(1::int) \<noteq> 0 \<and> (7::int) \<noteq> 0 \<and> (9::int) \<noteq> 0 \<and> ''secret'' \<noteq> [] \<and> ''guess'' \<noteq> []
   \<and> prisma_group_findUnique_id sample_store 7 = None
   \<and> fst (joinGroup sample_runtime sample_store (Some 1) (Some 7) (Some ''secret'')) = sample_store
   \<and> statusCode (snd (joinGroup sample_runtime sample_store (Some 1) (Some 7) (Some ''secret'')))
        = 400
   \<and> prisma_group_findUnique_id sample_store 1 = Some family
   \<and> \<not> compareSync sample_runtime ''guess'' (group_password family)
   \<and> joinGroup sample_runtime sample_store (Some 1) (Some 1) (Some ''guess'') =
        (sample_store, catch400 (Error ''Senha incorreta!''))
   \<and> compareSync sample_runtime ''secret'' (group_password family)
   \<and> prisma_user_findUnique_id sample_store 9 = None
   \<and> joinGroup sample_runtime sample_store (Some 9) (Some 1) (Some ''secret'') =
        (sample_store, catch400 (PrismaError P2025))
   \<and> prisma_user_findUnique_id sample_store 1 = Some alice
   \<and> snd (joinGroup sample_runtime sample_store (Some 1) (Some 1) (Some ''secret'')) =
        \<lparr>statusCode = 201,
         payload = MessageBody ''Usuario adicionado com sucesso!'' (IdData 1)\<rparr>
   \<and> prisma_user_findUnique_id
        (fst (joinGroup sample_runtime sample_store (Some 1) (Some 1) (Some ''secret''))) 1 =
        Some (alice\<lparr>user_groupId := Some 1\<rparr>)"
proof -
  have n1: "(1::int) \<noteq> 0" and n7: "(7::int) \<noteq> 0" and n9: "(9::int) \<noteq> 0"
    and ps: "''secret'' \<noteq> []" and pg: "''guess'' \<noteq> []" by simp_all
  have g7: "prisma_group_findUnique_id sample_store 7 = None"
    and g1: "prisma_group_findUnique_id sample_store 1 = Some family"
    by (simp_all add: prisma_group_findUnique_id_def sample_defs)
  have u9: "prisma_user_findUnique_id sample_store 9 = None"
    and u1: "prisma_user_findUnique_id sample_store 1 = Some alice"
    by (simp_all add: prisma_user_findUnique_id_def sample_defs)
  have bad: "\<not> compareSync sample_runtime ''guess'' (group_password family)"
    and good: "compareSync sample_runtime ''secret'' (group_password family)"
    by (simp_all add: sample_defs)
  show ?thesis
    using joinGroup_results [OF n1 n7 ps, of sample_store sample_runtime]
      joinGroup_results [OF n1 n1 pg, of sample_store sample_runtime]
      joinGroup_results [OF n9 n1 ps, of sample_store sample_runtime]
      joinGroup_results [OF n1 n1 ps, of sample_store sample_runtime]
      g7 g1 u9 u1 bad good
    by simp
qed

text \<open>
  Claim C4 as stated promises, whenever the group exists and the password verifies, that
  the user gets the groupId and that the response carries the user's id.  Group 1 exists
  and \<open>secret\<close> is its password, but user 9 does not exist: the response is the 400 of
  the failed update.
\<close>

theorem joinGroup_unknown_user_counterexample:
  "prisma_group_findUnique_id sample_store 1 = Some family
   \<and> compareSync sample_runtime ''secret'' (group_password family)
   \<and> prisma_user_findUnique_id sample_store 9 = None
   \<and> joinGroup sample_runtime sample_store (Some 9) (Some 1) (Some ''secret'') =
        (sample_store, catch400 (PrismaError P2025))"
  by (simp add: joinGroup_def prisma_defs js_defs sample_defs)

text \<open>What the handler sends for a group that does not exist, here group 7.\<close>

lemma joinGroup_absent_group_message:
  "prisma_group_findUnique_id sample_store 7 = None
   \<and> joinGroup sample_runtime sample_store (Some 1) (Some 7) (Some ''secret'') =
        (sample_store, catch400 (Error ''Ja existe um grupo com esse nome!''))"
  by (simp add: joinGroup_def prisma_defs js_defs sample_defs)

section \<open>Login\<close>

text \<open>
  Claim C5.  For every \<open>login\<close> request:
  \<^item> if the email or the password is missing or empty, the answer is the validation
    error, status 400 with \<open>Email ou senha invalidos\<close>;
  \<^item> if both are present and no user has that email, the answer is 404 with
    \<open>Usuario nao encontrado!\<close>;
  \<^item> if the user exists and the password does not verify against the stored hash, the
    answer is the rejection 400 with \<open>Email ou senha incorretos!\<close>;
  \<^item> otherwise the answer is 200 with the user's id and the token that
    \<open>jwt.sign\<close> issues for that user's id and email, the email being the one supplied.
  The last case is stated for a signer that hands a token to its callback.
\<close>

theorem login_results:
  "(email = None \<or> email = Some [] \<or> password = None \<or> password = Some [] \<longrightarrow>
      login rt s email password = catch400 (Error ''Email ou senha invalidos''))
   \<and> (e \<noteq> [] \<and> p \<noteq> [] \<longrightarrow>
        (e \<notin> user_email ` set (user_table s) \<longrightarrow>
           login rt s (Some e) (Some p) =
             \<lparr>statusCode = 404, payload = ErrorBody (Error ''Usuario nao encontrado!'')\<rparr>)
      \<and> (\<forall>user. prisma_user_findUnique_email s e = Some user
               \<and> \<not> compareSync rt p (user_password user) \<longrightarrow>
           login rt s (Some e) (Some p) = catch400 (Error ''Email ou senha incorretos!''))
      \<and> (\<forall>user token. prisma_user_findUnique_email s e = Some user
               \<and> compareSync rt p (user_password user)
               \<and> jwt_sign rt (user_id user) (user_email user) = Some token \<longrightarrow>
           user_email user = e
           \<and> login rt s (Some e) (Some p) =
               \<lparr>statusCode = 200,
                payload = MessageBody ''Login efetuado com sucesso!''
                            (UserToken (user_id user) token)\<rparr>))"
proof (intro conjI impI allI)
  assume "email = None \<or> email = Some [] \<or> password = None \<or> password = Some []"
  then show "login rt s email password = catch400 (Error ''Email ou senha invalidos'')"
    by (auto simp: login_def falsy_str_def split: option.splits)
next
  assume ne: "e \<noteq> [] \<and> p \<noteq> []" and "e \<notin> user_email ` set (user_table s)"
  then have "prisma_user_findUnique_email s e = None"
    by (auto simp: prisma_user_findUnique_email_def find_None_iff)
  with ne show "login rt s (Some e) (Some p) =
      \<lparr>statusCode = 404, payload = ErrorBody (Error ''Usuario nao encontrado!'')\<rparr>"
    by (simp add: login_def falsy_str_def)
next
  fix user
  assume "e \<noteq> [] \<and> p \<noteq> []"
    and "prisma_user_findUnique_email s e = Some user \<and> \<not> compareSync rt p (user_password user)"
  then show "login rt s (Some e) (Some p) = catch400 (Error ''Email ou senha incorretos!'')"
    by (simp add: login_def falsy_str_def)
next
  fix user token
  assume ne: "e \<noteq> [] \<and> p \<noteq> []"
    and h: "prisma_user_findUnique_email s e = Some user \<and> compareSync rt p (user_password user)
          \<and> jwt_sign rt (user_id user) (user_email user) = Some token"
  from h show "user_email user = e"
    by (auto simp: prisma_user_findUnique_email_def find_Some_iff)
  from ne h show "login rt s (Some e) (Some p) =
      \<lparr>statusCode = 200,
       payload = MessageBody ''Login efetuado com sucesso!'' (UserToken (user_id user) token)\<rparr>"
    by (simp add: login_def falsy_str_def)
qed

text \<open>The four cases on the sample database; Bob's password is \<open>builder\<close>.\<close>

theorem login_results_witness:
  "login sample_runtime sample_store None (Some ''builder'') =
     catch400 (Error ''Email ou senha invalidos'')
   \<and> login sample_runtime sample_store (Some ''bob@example.com'') (Some []) =
     catch400 (Error ''Email ou senha invalidos'')
   \<and> ''dave@example.com'' \<notin> user_email ` set (user_table sample_store)
   \<and> login sample_runtime sample_store (Some ''dave@example.com'') (Some ''builder'') =
       \<lparr>statusCode = 404, payload = ErrorBody (Error ''Usuario nao encontrado!'')\<rparr>
   \<and> prisma_user_findUnique_email sample_store ''bob@example.com'' = Some bob
   \<and> \<not> compareSync sample_runtime ''guess'' (user_password bob)
   \<and> login sample_runtime sample_store (Some ''bob@example.com'') (Some ''guess'') =
       catch400 (Error ''Email ou senha incorretos!'')
   \<and> compareSync sample_runtime ''builder'' (user_password bob)
   \<and> jwt_sign sample_runtime (user_id bob) (user_email bob) = Some ''jwt.bob@example.com''
   \<and> login sample_runtime sample_store (Some ''bob@example.com'') (Some ''builder'') =
       \<lparr>statusCode = 200,
        payload = MessageBody ''Login efetuado com sucesso!''
                    (UserToken 2 ''jwt.bob@example.com'')\<rparr>"
proof -
  have dave: "''dave@example.com'' \<notin> user_email ` set (user_table sample_store)"
    by (simp add: sample_defs)
  have bob: "prisma_user_findUnique_email sample_store ''bob@example.com'' = Some bob"
    by (simp add: prisma_user_findUnique_email_def sample_defs)
  have bad: "\<not> compareSync sample_runtime ''guess'' (user_password bob)"
    and good: "compareSync sample_runtime ''builder'' (user_password bob)"
    and tok: "jwt_sign sample_runtime (user_id bob) (user_email bob) = Some ''jwt.bob@example.com''"
    and id: "user_id bob = 2"
    by (simp_all add: sample_defs)
  show ?thesis
    using login_results [of None "Some ''builder''" sample_runtime sample_store
        "''dave@example.com''" "''builder''"]
      login_results [of "Some ''bob@example.com''" "Some []" sample_runtime sample_store
        "''bob@example.com''" "''guess''"]
      login_results [of None None sample_runtime sample_store
        "''bob@example.com''" "''builder''"]
      dave bob bad good tok id
    by simp
qed

section \<open>Reading groups\<close>

text \<open>
  Claim C9, as amended.  \<open>getGroup\<close> never answers 404, whatever the path parameter.
  For a numeric parameter (it passes the handler's \<open>isNaN\<close> test and \<open>parseInt\<close> reads
  the integer \<open>n\<close> from it) whose value fits the 32-bit \<open>Int\<close> of \<open>Group.id\<close>, the answer
  has status 200, also when no group has the id \<open>n\<close>: the data is then the empty list,
  because the lookup is a filtered \<open>findMany\<close>.  For a numeric parameter whose value does
  not fit, the query throws and the \<open>catch\<close> block answers 400.
\<close>

theorem getGroup_numeric_id:
  "statusCode (getGroup rt s p) \<noteq> 404
   \<and> (\<not> isNaN rt p \<and> parseInt rt p = Some n \<and> int4 n \<longrightarrow>
        statusCode (getGroup rt s p) = 200
      \<and> (n \<notin> group_id ` set (group_table s) \<longrightarrow>
           getGroup rt s p =
             \<lparr>statusCode = 200,
              payload = MessageBody ''Grupo obtido com sucesso!'' (GroupList [])\<rparr>))
   \<and> (\<not> isNaN rt p \<and> parseInt rt p = Some n \<and> \<not> int4 n \<longrightarrow>
        getGroup rt s p = catch400 (PrismaError ValueOutOfRange))"
proof (intro conjI impI)
  show "statusCode (getGroup rt s p) \<noteq> 404"
    by (simp add: getGroup_def prisma_group_findMany_def catch400_def sendStatus_def
        split: option.splits)
next
  assume "\<not> isNaN rt p \<and> parseInt rt p = Some n \<and> int4 n"
  then show "statusCode (getGroup rt s p) = 200"
    by (simp add: getGroup_def prisma_group_findMany_def)
next
  assume num: "\<not> isNaN rt p \<and> parseInt rt p = Some n \<and> int4 n"
    and "n \<notin> group_id ` set (group_table s)"
  then have "filter (\<lambda>g. group_id g = n) (group_table s) = []"
    by (auto simp: filter_empty_conv)
  with num show "getGroup rt s p =
      \<lparr>statusCode = 200, payload = MessageBody ''Grupo obtido com sucesso!'' (GroupList [])\<rparr>"
    by (simp add: getGroup_def prisma_group_findMany_def)
next
  assume "\<not> isNaN rt p \<and> parseInt rt p = Some n \<and> \<not> int4 n"
  then show "getGroup rt s p = catch400 (PrismaError ValueOutOfRange)"
    by (simp add: getGroup_def prisma_group_findMany_def)
qed

text \<open>
  No group of the sample database has the id 7, and 2147483648 is the first integer
  above the 32-bit range.
\<close>

theorem getGroup_numeric_id_witness:
  "\<not> isNaN sample_runtime ''7'' \<and> parseInt sample_runtime ''7'' = Some 7 \<and> int4 7
   \<and> 7 \<notin> group_id ` set (group_table sample_store)
   \<and> getGroup sample_runtime sample_store ''7'' =
       \<lparr>statusCode = 200,
        payload = MessageBody ''Grupo obtido com sucesso!'' (GroupList [])\<rparr>
   \<and> \<not> isNaN sample_runtime ''2147483648''
   \<and> parseInt sample_runtime ''2147483648'' = Some 2147483648
   \<and> \<not> int4 2147483648
   \<and> getGroup sample_runtime sample_store ''2147483648'' =
       catch400 (PrismaError ValueOutOfRange)"
proof -
  have num: "\<not> isNaN sample_runtime ''7''" "\<not> isNaN sample_runtime ''2147483648''"
    and val: "parseInt sample_runtime ''7'' = Some 7"
      "parseInt sample_runtime ''2147483648'' = Some 2147483648"
    by (simp_all add: sample_defs)
  have rng: "int4 7" "\<not> int4 2147483648"
    by (simp_all add: int4_def)
  have absent: "7 \<notin> group_id ` set (group_table sample_store)"
    by (simp add: sample_defs)
  show ?thesis
    using getGroup_numeric_id [of sample_runtime sample_store "''7''" 7]
      getGroup_numeric_id [of sample_runtime sample_store "''2147483648''" 2147483648]
      num val rng absent
    by simp
qed

text \<open>
  Claim C9 as stated promises status 200 for every numeric id.  The parameter
  \<open>2147483648\<close> is numeric, and the answer is the 400 of the \<open>catch\<close> block.
\<close>

theorem getGroup_out_of_range_counterexample:
  "\<not> isNaN sample_runtime ''2147483648''
   \<and> parseInt sample_runtime ''2147483648'' = Some 2147483648
   \<and> getGroup sample_runtime sample_store ''2147483648'' =
       catch400 (PrismaError ValueOutOfRange)
   \<and> statusCode (getGroup sample_runtime sample_store ''2147483648'') = 400"
  by (simp add: getGroup_def prisma_defs js_defs sample_defs)

section \<open>Password hashes and the responses\<close>

lemma select_user_hide:
  "select_user (hide_passwords s) (u\<lparr>user_password := []\<rparr>) = select_user s u"
  by (simp add: select_user_def spendings_of_def hide_passwords_def)

lemma select_group_hide:
  "select_group (hide_passwords s) (g\<lparr>group_password := []\<rparr>) = select_group s g"
proof -
  have "map (select_user (hide_passwords s))
          (filter (\<lambda>u. user_groupId u = Some (group_id g)) (user_table (hide_passwords s))) =
        map (select_user s) (filter (\<lambda>u. user_groupId u = Some (group_id g)) (user_table s))"
    by (simp add: hide_passwords_def filter_map o_def select_user_hide [unfolded hide_passwords_def])
  then show ?thesis by (simp add: select_group_def)
qed

lemma findMany_hide:
  "prisma_group_findMany (hide_passwords s) wh = prisma_group_findMany s wh"
proof -
  have "map (select_group (hide_passwords s)) (filter P (group_table (hide_passwords s))) =
        map (select_group s) (filter P (group_table s))"
    if "\<And>g. P (g\<lparr>group_password := []\<rparr>) = P g" for P
    using that
    by (simp add: hide_passwords_def filter_map o_def select_group_hide [unfolded hide_passwords_def])
  from this [of "\<lambda>g. True"] this [of "\<lambda>g. group_id g = i" for i]
  show ?thesis by (simp add: prisma_group_findMany_def split: option.splits)
qed

lemma listGroups_hide: "listGroups (hide_passwords s) = listGroups s"
  by (simp add: listGroups_def findMany_hide)

lemma getGroup_hide: "getGroup rt (hide_passwords s) p = getGroup rt s p"
  by (simp add: getGroup_def findMany_hide split: option.splits)

lemma listByUser_hide: "listByUser rt (hide_passwords s) p = listByUser rt s p"
  by (simp add: listByUser_def prisma_spending_findMany_def spendings_of_def hide_passwords_def
      split: option.splits)

lemma find_map_option: "find P (map f xs) = map_option f (find (\<lambda>x. P (f x)) xs)"
  by (induction xs) auto

lemma find_append_case:
  "find P (xs @ ys) = (case find P xs of None \<Rightarrow> find P ys | Some x \<Rightarrow> Some x)"
  by (induction xs) auto

lemma user_by_email_hide:
  "prisma_user_findUnique_email (hide_passwords s) e =
     map_option (\<lambda>u. u\<lparr>user_password := []\<rparr>) (prisma_user_findUnique_email s e)"
  by (simp add: prisma_user_findUnique_email_def hide_passwords_def find_map_option)

lemma user_by_id_hide:
  "prisma_user_findUnique_id (hide_passwords s) i =
     map_option (\<lambda>u. u\<lparr>user_password := []\<rparr>) (prisma_user_findUnique_id s i)"
  by (simp add: prisma_user_findUnique_id_def hide_passwords_def find_map_option)

lemma group_by_id_hide:
  "prisma_group_findUnique_id (hide_passwords s) i =
     map_option (\<lambda>g. g\<lparr>group_password := []\<rparr>) (prisma_group_findUnique_id s i)"
  by (simp add: prisma_group_findUnique_id_def hide_passwords_def find_map_option)

lemma group_by_name_hide:
  "prisma_group_findUnique_name (hide_passwords s) n =
     map_option (\<lambda>g. g\<lparr>group_password := []\<rparr>) (prisma_group_findUnique_name s n)"
  by (simp add: prisma_group_findUnique_name_def hide_passwords_def find_map_option)

lemma seq_hide:
  "user_id_seq (hide_passwords s) = user_id_seq s"
  "group_id_seq (hide_passwords s) = group_id_seq s"
  "spending_id_seq (hide_passwords s) = spending_id_seq s"
  by (simp_all add: hide_passwords_def)

text \<open>What the handlers that verify no password answer does not depend on the hashes.\<close>

lemma user_create_hide:
  "snd (prisma_user_create (hide_passwords s) n e h) = snd (prisma_user_create s n e h)"
  by (simp add: prisma_user_create_def user_by_email_hide seq_hide Let_def)

lemma update_groupId_answer:
  "snd (prisma_user_update_groupId s i g) =
     (case prisma_user_findUnique_id s i of
        None \<Rightarrow> Inl P2025
      | Some u \<Rightarrow>
          if (case g of None \<Rightarrow> False | Some gid \<Rightarrow> prisma_group_findUnique_id s gid = None)
          then Inl P2003 else Inr (u\<lparr>user_groupId := g\<rparr>))"
  by (simp add: prisma_user_update_groupId_def split: option.splits)

lemma register_hide:
  "snd (register rt salt (hide_passwords s) name email password) =
   snd (register rt salt s name email password)"
  by (simp add: register_def prisma_user_create_def user_by_email_hide seq_hide Let_def)

lemma leaveGroup_hide:
  "snd (leaveGroup (hide_passwords s) userId groupId) = snd (leaveGroup s userId groupId)"
  by (auto simp: leaveGroup_def prisma_user_update_groupId_def user_by_id_hide group_by_id_hide
      split: option.splits)

lemma create_hide:
  "snd (create rt (hide_passwords s) userId day val name) = snd (create rt s userId day val name)"
  by (auto simp: create_def prisma_spending_create_def user_by_id_hide seq_hide Let_def
      split: option.splits number.splits)

lemma createGroup_answer:
  "snd (createGroup rt salt s userId name password) =
     (if falsy_int userId \<or> userId = Some 0
        then catch400 (Error ''E necessario um usuario para criar o grupo!'')
      else if falsy_str name \<or> name = Some [] then catch400 (Error ''Nome e obrigatorio!'')
      else if falsy_str password \<or> password = Some []
        then catch400 (Error ''Senha e obrigatoria'')
      else if prisma_group_findUnique_name s (the name) \<noteq> None
        then catch400 (Error ''Ja existe um grupo com esse nome!'')
      else if prisma_user_findUnique_id s (group_id_seq s + 1) = None
        then catch400 (PrismaError P2025)
      else \<lparr>statusCode = 201,
            payload = MessageBody ''Grupo cadastrado com sucesso!''
                        (IdData (group_id_seq s + 1))\<rparr>)"
  by (auto simp: createGroup_def prisma_group_create_def prisma_user_update_groupId_def
      prisma_user_findUnique_id_def prisma_group_findUnique_id_def Let_def find_append_case
      split: option.splits)

lemma createGroup_hide:
  "snd (createGroup rt salt (hide_passwords s) userId name password) =
   snd (createGroup rt salt s userId name password)"
  by (simp add: createGroup_answer group_by_name_hide user_by_id_hide seq_hide)

lemma hide_eq_user_by_email:
  assumes "hide_passwords s = hide_passwords s'"
  shows "map_option (\<lambda>u. u\<lparr>user_password := []\<rparr>) (prisma_user_findUnique_email s e) =
         map_option (\<lambda>u. u\<lparr>user_password := []\<rparr>) (prisma_user_findUnique_email s' e)"
  using user_by_email_hide [of s e] user_by_email_hide [of s' e] assms by simp

lemma hide_eq_user_by_id:
  assumes "hide_passwords s = hide_passwords s'"
  shows "map_option (\<lambda>u. u\<lparr>user_password := []\<rparr>) (prisma_user_findUnique_id s i) =
         map_option (\<lambda>u. u\<lparr>user_password := []\<rparr>) (prisma_user_findUnique_id s' i)"
  using user_by_id_hide [of s i] user_by_id_hide [of s' i] assms by simp

lemma hide_eq_group_by_id:
  assumes "hide_passwords s = hide_passwords s'"
  shows "map_option (\<lambda>g. g\<lparr>group_password := []\<rparr>) (prisma_group_findUnique_id s i) =
         map_option (\<lambda>g. g\<lparr>group_password := []\<rparr>) (prisma_group_findUnique_id s' i)"
  using group_by_id_hide [of s i] group_by_id_hide [of s' i] assms by simp

lemma same_user_but_password:
  assumes "u\<lparr>user_password := []\<rparr> = u'\<lparr>user_password := []\<rparr>"
  shows "user_id u = user_id u'" and "user_email u = user_email u'"
proof -
  from assms have "user_id (u\<lparr>user_password := []\<rparr>) = user_id (u'\<lparr>user_password := []\<rparr>)"
    and "user_email (u\<lparr>user_password := []\<rparr>) = user_email (u'\<lparr>user_password := []\<rparr>)"
    by simp_all
  then show "user_id u = user_id u'" and "user_email u = user_email u'" by simp_all
qed

lemma login_verification_only:
  assumes eq: "hide_passwords s = hide_passwords s'"
    and agree: "map_option (\<lambda>u. compareSync rt p (user_password u))
                  (prisma_user_findUnique_email s e) =
                map_option (\<lambda>u. compareSync rt p (user_password u))
                  (prisma_user_findUnique_email s' e)"
  shows "login rt s (Some e) (Some p) = login rt s' (Some e) (Some p)"
proof (cases "prisma_user_findUnique_email s e")
  case None
  with agree have "prisma_user_findUnique_email s' e = None" by simp
  with None show ?thesis by (simp add: login_def)
next
  case (Some u)
  with agree obtain u' where u': "prisma_user_findUnique_email s' e = Some u'"
    and cmp: "compareSync rt p (user_password u) = compareSync rt p (user_password u')"
    by (cases "prisma_user_findUnique_email s' e") auto
  from hide_eq_user_by_email [OF eq, of e] Some u'
  have "u\<lparr>user_password := []\<rparr> = u'\<lparr>user_password := []\<rparr>" by simp
  then have "user_id u = user_id u'" and "user_email u = user_email u'"
    by (rule same_user_but_password)+
  with Some u' cmp show ?thesis by (simp add: login_def split: option.splits)
qed

lemma joinGroup_answer:
  "snd (joinGroup rt s userId groupId password) =
     (if falsy_int userId \<or> userId = Some 0
        then catch400 (Error ''E necessario um usuario para criar o grupo!'')
      else if falsy_int groupId \<or> groupId = Some 0
        then catch400 (Error ''E necessario um usuario para criar o grupo!'')
      else if falsy_str password \<or> password = Some []
        then catch400 (Error ''Senha e obrigatoria!'')
      else case prisma_group_findUnique_id s (the groupId) of
             None \<Rightarrow> catch400 (Error ''Ja existe um grupo com esse nome!'')
           | Some grp \<Rightarrow>
               if compareSync rt (the password) (group_password grp) then
                 (case prisma_user_findUnique_id s (the userId) of
                    None \<Rightarrow> catch400 (PrismaError P2025)
                  | Some u \<Rightarrow>
                      \<lparr>statusCode = 201,
                       payload = MessageBody ''Usuario adicionado com sucesso!''
                                   (IdData (user_id u))\<rparr>)
               else catch400 (Error ''Senha incorreta!''))"
  by (auto simp: joinGroup_def prisma_user_update_groupId_def falsy_int_def
      split: option.splits)

lemma joinGroup_verification_only:
  assumes eq: "hide_passwords s = hide_passwords s'"
    and agree: "map_option (\<lambda>g. compareSync rt p (group_password g))
                  (prisma_group_findUnique_id s g) =
                map_option (\<lambda>g. compareSync rt p (group_password g))
                  (prisma_group_findUnique_id s' g)"
  shows "snd (joinGroup rt s userId (Some g) (Some p)) =
         snd (joinGroup rt s' userId (Some g) (Some p))"
proof -
  have users: "map_option user_id (prisma_user_findUnique_id s (the userId)) =
               map_option user_id (prisma_user_findUnique_id s' (the userId))"
    using hide_eq_user_by_id [OF eq, of "the userId"]
    by (cases "prisma_user_findUnique_id s (the userId)";
        cases "prisma_user_findUnique_id s' (the userId)")
       (auto dest: same_user_but_password(1))
  show ?thesis
  proof (cases "prisma_group_findUnique_id s g")
    case None
    with agree have "prisma_group_findUnique_id s' g = None" by simp
    with None show ?thesis by (simp add: joinGroup_answer)
  next
    case (Some grp)
    with agree obtain grp' where grp': "prisma_group_findUnique_id s' g = Some grp'"
      and cmp: "compareSync rt p (group_password grp) = compareSync rt p (group_password grp')"
      by (cases "prisma_group_findUnique_id s' g") auto
    from users Some grp' cmp show ?thesis
      by (cases "prisma_user_findUnique_id s (the userId)";
          cases "prisma_user_findUnique_id s' (the userId)")
         (auto simp: joinGroup_answer)
  qed
qed

lemma login_missing:
  assumes "email = None \<or> password = None"
  shows "login rt s email password = login rt s' email password"
  using assms by (auto simp: login_def falsy_str_def)

lemma joinGroup_missing:
  assumes "groupId = None \<or> password = None"
  shows "snd (joinGroup rt s userId groupId password) =
         snd (joinGroup rt s' userId groupId password)"
  using assms by (auto simp: joinGroup_answer falsy_str_def falsy_int_def)

text \<open>
  Claim C3.  No response carries a stored password.  A success body holds an id, an id
  with a token, group views or spending rows, and the selection of both group queries
  keeps, for a group, its id and name and, for each member, the id, name, email and
  spendings.  Hence two stores that differ only in the stored password hashes of users
  and groups produce identical \<open>listGroups\<close> and \<open>getGroup\<close> responses, and identical
  \<open>listByUser\<close> responses.  The same holds for the responses of \<open>register\<close>,
  \<open>createGroup\<close>, \<open>leaveGroup\<close> and \<open>create\<close>.  The responses of \<open>login\<close> and
  \<open>joinGroup\<close> depend on the stored hash only through the outcome of the password
  verification: they are identical whenever the verification comes out the same in both
  stores (and whenever a field is missing).
\<close>

theorem responses_hide_passwords:
  assumes "hide_passwords s = hide_passwords s'"
  shows "listGroups s = listGroups s'
       \<and> getGroup rt s p = getGroup rt s' p
       \<and> listByUser rt s p = listByUser rt s' p
       \<and> snd (register rt salt s name email password) =
           snd (register rt salt s' name email password)
       \<and> snd (createGroup rt salt s userId gname gpassword) =
           snd (createGroup rt salt s' userId gname gpassword)
       \<and> snd (leaveGroup s userId groupId) = snd (leaveGroup s' userId groupId)
       \<and> snd (create rt s userId day val sname) = snd (create rt s' userId day val sname)
       \<and> (lemail = None \<or> lpassword = None \<longrightarrow>
            login rt s lemail lpassword = login rt s' lemail lpassword)
       \<and> (map_option (\<lambda>u. compareSync rt pw (user_password u))
             (prisma_user_findUnique_email s e) =
           map_option (\<lambda>u. compareSync rt pw (user_password u))
             (prisma_user_findUnique_email s' e) \<longrightarrow>
            login rt s (Some e) (Some pw) = login rt s' (Some e) (Some pw))
       \<and> (jgroupId = None \<or> jpassword = None \<longrightarrow>
            snd (joinGroup rt s userId jgroupId jpassword) =
            snd (joinGroup rt s' userId jgroupId jpassword))
       \<and> (map_option (\<lambda>g. compareSync rt pw (group_password g))
             (prisma_group_findUnique_id s gid) =
           map_option (\<lambda>g. compareSync rt pw (group_password g))
             (prisma_group_findUnique_id s' gid) \<longrightarrow>
            snd (joinGroup rt s userId (Some gid) (Some pw)) =
            snd (joinGroup rt s' userId (Some gid) (Some pw)))"
proof (intro conjI impI)
  show "listGroups s = listGroups s'"
    using listGroups_hide [of s] listGroups_hide [of s'] assms by simp
  show "getGroup rt s p = getGroup rt s' p"
    using getGroup_hide [of rt s p] getGroup_hide [of rt s' p] assms by simp
  show "listByUser rt s p = listByUser rt s' p"
    using listByUser_hide [of rt s p] listByUser_hide [of rt s' p] assms by simp
  show "snd (register rt salt s name email password) =
      snd (register rt salt s' name email password)"
    using register_hide [of rt salt s name email password]
      register_hide [of rt salt s' name email password] assms by simp
  show "snd (createGroup rt salt s userId gname gpassword) =
      snd (createGroup rt salt s' userId gname gpassword)"
    using createGroup_hide [of rt salt s userId gname gpassword]
      createGroup_hide [of rt salt s' userId gname gpassword] assms by simp
  show "snd (leaveGroup s userId groupId) = snd (leaveGroup s' userId groupId)"
    using leaveGroup_hide [of s userId groupId] leaveGroup_hide [of s' userId groupId] assms
    by simp
  show "snd (create rt s userId day val sname) = snd (create rt s' userId day val sname)"
    using create_hide [of rt s userId day val sname] create_hide [of rt s' userId day val sname]
      assms by simp
next
  assume "lemail = None \<or> lpassword = None"
  then show "login rt s lemail lpassword = login rt s' lemail lpassword"
    by (rule login_missing)
next
  assume "map_option (\<lambda>u. compareSync rt pw (user_password u))
             (prisma_user_findUnique_email s e) =
          map_option (\<lambda>u. compareSync rt pw (user_password u))
             (prisma_user_findUnique_email s' e)"
  with assms show "login rt s (Some e) (Some pw) = login rt s' (Some e) (Some pw)"
    by (rule login_verification_only)
next
  assume "jgroupId = None \<or> jpassword = None"
  then show "snd (joinGroup rt s userId jgroupId jpassword) =
      snd (joinGroup rt s' userId jgroupId jpassword)"
    by (rule joinGroup_missing)
next
  assume "map_option (\<lambda>g. compareSync rt pw (group_password g))
             (prisma_group_findUnique_id s gid) =
          map_option (\<lambda>g. compareSync rt pw (group_password g))
             (prisma_group_findUnique_id s' gid)"
  with assms show "snd (joinGroup rt s userId (Some gid) (Some pw)) =
      snd (joinGroup rt s' userId (Some gid) (Some pw))"
    by (rule joinGroup_verification_only)
qed

text \<open>
  The sample database and a copy in which Bob's hash and the hash of group 1 are
  different; the password \<open>guess\<close> verifies against neither.
\<close>

theorem responses_hide_passwords_witness:
  "hide_passwords sample_store = hide_passwords rehashed_store
   \<and> sample_store \<noteq> rehashed_store
   \<and> listGroups sample_store = listGroups rehashed_store
   \<and> getGroup sample_runtime sample_store ''1'' = getGroup sample_runtime rehashed_store ''1''
   \<and> listByUser sample_runtime sample_store ''1'' =
       listByUser sample_runtime rehashed_store ''1''
   \<and> snd (register sample_runtime ''$s$'' sample_store (Some ''Dave'')
        (Some ''dave@example.com'') (Some ''rabbit'')) =
       snd (register sample_runtime ''$s$'' rehashed_store (Some ''Dave'')
        (Some ''dave@example.com'') (Some ''rabbit''))
   \<and> snd (createGroup sample_runtime ''$s$'' sample_store (Some 2) (Some ''trip'')
        (Some ''pw'')) =
       snd (createGroup sample_runtime ''$s$'' rehashed_store (Some 2) (Some ''trip'')
        (Some ''pw''))
   \<and> snd (leaveGroup sample_store (Some 2) (Some 1)) =
       snd (leaveGroup rehashed_store (Some 2) (Some 1))
   \<and> snd (create sample_runtime sample_store (Some 2) (Some ''2024-09-03T12:34:56Z'')
        (Some (Finite (7 / 2))) (Some ''tea'')) =
       snd (create sample_runtime rehashed_store (Some 2) (Some ''2024-09-03T12:34:56Z'')
        (Some (Finite (7 / 2))) (Some ''tea''))
   \<and> login sample_runtime sample_store (Some ''bob@example.com'') None =
       login sample_runtime rehashed_store (Some ''bob@example.com'') None
   \<and> map_option (\<lambda>u. compareSync sample_runtime ''guess'' (user_password u))
        (prisma_user_findUnique_email sample_store ''bob@example.com'') =
       map_option (\<lambda>u. compareSync sample_runtime ''guess'' (user_password u))
        (prisma_user_findUnique_email rehashed_store ''bob@example.com'')
   \<and> login sample_runtime sample_store (Some ''bob@example.com'') (Some ''guess'') =
       login sample_runtime rehashed_store (Some ''bob@example.com'') (Some ''guess'')
   \<and> snd (joinGroup sample_runtime sample_store (Some 2) (Some 1) None) =
       snd (joinGroup sample_runtime rehashed_store (Some 2) (Some 1) None)
   \<and> map_option (\<lambda>g. compareSync sample_runtime ''guess'' (group_password g))
        (prisma_group_findUnique_id sample_store 1) =
       map_option (\<lambda>g. compareSync sample_runtime ''guess'' (group_password g))
        (prisma_group_findUnique_id rehashed_store 1)
   \<and> snd (joinGroup sample_runtime sample_store (Some 2) (Some 1) (Some ''guess'')) =
       snd (joinGroup sample_runtime rehashed_store (Some 2) (Some 1) (Some ''guess''))"
proof -
  have same: "hide_passwords sample_store = hide_passwords rehashed_store"
    by (simp add: hide_passwords_def rehashed_store_def sample_defs)
  have differ: "sample_store \<noteq> rehashed_store"
    by (simp add: rehashed_store_def sample_defs)
  have bob: "map_option (\<lambda>u. compareSync sample_runtime ''guess'' (user_password u))
        (prisma_user_findUnique_email sample_store ''bob@example.com'') =
       map_option (\<lambda>u. compareSync sample_runtime ''guess'' (user_password u))
        (prisma_user_findUnique_email rehashed_store ''bob@example.com'')"
    by (simp add: prisma_user_findUnique_email_def rehashed_store_def sample_defs)
  have fam: "map_option (\<lambda>g. compareSync sample_runtime ''guess'' (group_password g))
        (prisma_group_findUnique_id sample_store 1) =
       map_option (\<lambda>g. compareSync sample_runtime ''guess'' (group_password g))
        (prisma_group_findUnique_id rehashed_store 1)"
    by (simp add: prisma_group_findUnique_id_def rehashed_store_def sample_defs)
  note inst = responses_hide_passwords [OF same, where rt = sample_runtime and salt = "''$s$''"
      and name = "Some ''Dave''" and email = "Some ''dave@example.com''"
      and password = "Some ''rabbit''" and userId = "Some 2" and gname = "Some ''trip''"
      and gpassword = "Some ''pw''" and groupId = "Some 1"
      and day = "Some ''2024-09-03T12:34:56Z''" and val = "Some (Finite (7 / 2))"
      and sname = "Some ''tea''" and lemail = "Some ''bob@example.com''" and lpassword = None
      and e = "''bob@example.com''" and pw = "''guess''" and jgroupId = "Some 1"
      and jpassword = None and gid = 1 and p = "''1''"]
  show ?thesis
    using inst same differ bob fam by simp
qed

section \<open>Creating and listing spendings\<close>

text \<open>
  Claim C7, as amended.  For every spending \<open>create\<close> request:
  \<^item> if \<open>userId\<close>, \<open>day\<close> or \<open>value\<close> is missing (or zero, or the empty string), the
    request is rejected with status 400 and the message of the first failed check, and
    nothing is stored;
  \<^item> if they are present and \<open>day\<close> is not a parseable timestamp, the request is
    rejected with status 400 and \<open>Formato de data invalido!\<close>;
  \<^item> otherwise, when a name is supplied, the value is finite, the day is a timestamp the
    client and the column accept, and \<open>userId\<close> fits the 32-bit \<open>Int\<close> and is the id of an
    existing user, a new spending with the supplied fields is appended and the answer is
    201 with its id;
  \<^item> under the same conditions but with no user of the id \<open>userId\<close>, the insert violates
    the foreign key, the answer is 400 and no spending is stored;
  \<^item> when a name is supplied and the value is an infinity, or the day is no acceptable
    timestamp, or \<open>userId\<close> does not fit the 32-bit \<open>Int\<close>, the answer is 400 and no
    spending is stored.
\<close>

theorem create_results:
  "(userId = None \<or> userId = Some 0 \<or> day = None \<or> day = Some [] \<or> val = None
      \<or> val = Some (Finite 0) \<longrightarrow>
      fst (create rt s userId day val name) = s
      \<and> statusCode (snd (create rt s userId day val name)) = 400
      \<and> payload (snd (create rt s userId day val name)) \<in>
          ErrorBody ` Error ` {''Um gasto deve estar relacionado a um usuario!'',
                               ''Dia e obrigatorio!'', ''Valor e obrigatorio!''})
   \<and> (u \<noteq> 0 \<and> d \<noteq> [] \<and> v \<noteq> Finite 0 \<longrightarrow>
        (date_getTime rt d = None \<longrightarrow>
           create rt s (Some u) (Some d) (Some v) name =
             (s, catch400 (Error ''Formato de data invalido!'')))
      \<and> (\<forall>t usr. date_getTime rt d = Some t \<and> accepts_DateTime rt t \<and> v = Finite x
               \<and> int4 u \<and> prisma_user_findUnique_id s u = Some usr \<longrightarrow>
           snd (create rt s (Some u) (Some d) (Some v) (Some n)) =
             \<lparr>statusCode = 201,
              payload = MessageBody ''Gasto cadastrado com sucesso!''
                          (IdData (spending_id_seq s + 1))\<rparr>
           \<and> spending_table (fst (create rt s (Some u) (Some d) (Some v) (Some n))) =
               spending_table s @
                 [\<lparr>spending_id = spending_id_seq s + 1, spending_name = n, spending_day = t,
                   spending_value = v, spending_userId = u\<rparr>])
      \<and> (\<forall>t. date_getTime rt d = Some t \<and> accepts_DateTime rt t \<and> v = Finite x
               \<and> int4 u \<and> prisma_user_findUnique_id s u = None \<longrightarrow>
           snd (create rt s (Some u) (Some d) (Some v) (Some n)) = catch400 (PrismaError P2003)
           \<and> spending_table (fst (create rt s (Some u) (Some d) (Some v) (Some n))) =
               spending_table s)
      \<and> (\<forall>t. date_getTime rt d = Some t
               \<and> (v = PosInfinity \<or> v = NegInfinity \<or> \<not> accepts_DateTime rt t \<or> \<not> int4 u)
               \<longrightarrow>
           statusCode (snd (create rt s (Some u) (Some d) (Some v) (Some n))) = 400
           \<and> spending_table (fst (create rt s (Some u) (Some d) (Some v) (Some n))) =
               spending_table s))"
proof (intro conjI impI allI)
  assume missing: "userId = None \<or> userId = Some 0 \<or> day = None \<or> day = Some []
      \<or> val = None \<or> val = Some (Finite 0)"
  then show "fst (create rt s userId day val name) = s"
    by (auto simp: create_def falsy_int_def falsy_str_def falsy_num_def split: option.splits)
  from missing show "statusCode (snd (create rt s userId day val name)) = 400"
    by (auto simp: create_def falsy_int_def falsy_str_def falsy_num_def catch400_def
        split: option.splits)
  from missing show "payload (snd (create rt s userId day val name)) \<in>
      ErrorBody ` Error ` {''Um gasto deve estar relacionado a um usuario!'',
                           ''Dia e obrigatorio!'', ''Valor e obrigatorio!''}"
    by (auto simp: create_def falsy_int_def falsy_str_def falsy_num_def catch400_def
        split: option.splits)
next
  assume "u \<noteq> 0 \<and> d \<noteq> [] \<and> v \<noteq> Finite 0" and "date_getTime rt d = None"
  then show "create rt s (Some u) (Some d) (Some v) name =
      (s, catch400 (Error ''Formato de data invalido!''))"
    by (simp add: create_def falsy_int_def falsy_str_def falsy_num_def)
next
  fix t usr
  assume ok: "u \<noteq> 0 \<and> d \<noteq> [] \<and> v \<noteq> Finite 0"
    and h: "date_getTime rt d = Some t \<and> accepts_DateTime rt t \<and> v = Finite x \<and> int4 u
          \<and> prisma_user_findUnique_id s u = Some usr"
  then show "snd (create rt s (Some u) (Some d) (Some v) (Some n)) =
      \<lparr>statusCode = 201,
       payload = MessageBody ''Gasto cadastrado com sucesso!'' (IdData (spending_id_seq s + 1))\<rparr>"
    by (simp add: create_def falsy_int_def falsy_str_def falsy_num_def
        prisma_spending_create_def Let_def)
  from ok h show "spending_table (fst (create rt s (Some u) (Some d) (Some v) (Some n))) =
      spending_table s @
        [\<lparr>spending_id = spending_id_seq s + 1, spending_name = n, spending_day = t,
          spending_value = v, spending_userId = u\<rparr>]"
    by (simp add: create_def falsy_int_def falsy_str_def falsy_num_def
        prisma_spending_create_def Let_def)
next
  fix t
  assume ok: "u \<noteq> 0 \<and> d \<noteq> [] \<and> v \<noteq> Finite 0"
    and h: "date_getTime rt d = Some t \<and> accepts_DateTime rt t \<and> v = Finite x \<and> int4 u
          \<and> prisma_user_findUnique_id s u = None"
  then show "snd (create rt s (Some u) (Some d) (Some v) (Some n)) = catch400 (PrismaError P2003)"
    by (simp add: create_def falsy_int_def falsy_str_def falsy_num_def
        prisma_spending_create_def Let_def)
  from ok h show "spending_table (fst (create rt s (Some u) (Some d) (Some v) (Some n))) =
      spending_table s"
    by (simp add: create_def falsy_int_def falsy_str_def falsy_num_def
        prisma_spending_create_def Let_def)
next
  fix t
  assume ok: "u \<noteq> 0 \<and> d \<noteq> [] \<and> v \<noteq> Finite 0"
    and h: "date_getTime rt d = Some t
          \<and> (v = PosInfinity \<or> v = NegInfinity \<or> \<not> accepts_DateTime rt t \<or> \<not> int4 u)"
  then show "statusCode (snd (create rt s (Some u) (Some d) (Some v) (Some n))) = 400"
    by (auto simp: create_def falsy_int_def falsy_str_def falsy_num_def catch400_def
        prisma_spending_create_def Let_def split: number.splits)
  from ok h show "spending_table (fst (create rt s (Some u) (Some d) (Some v) (Some n))) =
      spending_table s"
    by (auto simp: create_def falsy_int_def falsy_str_def falsy_num_def
        prisma_spending_create_def Let_def split: number.splits)
qed

text \<open>
  The cases on the sample database: a zero value, an unknown date, Bob, user 9, an
  infinite value, a user id above the 32-bit range and a day no column holds.
\<close>

theorem create_results_witness:
  "fst (create sample_runtime sample_store (Some 2) (Some ''2024-09-03T12:34:56Z'')
         (Some (Finite 0)) (Some ''tea'')) = sample_store
   \<and> statusCode (snd (create sample_runtime sample_store (Some 2)
         (Some ''2024-09-03T12:34:56Z'') (Some (Finite 0)) (Some ''tea''))) = 400
   \<and> payload (snd (create sample_runtime sample_store (Some 2)
         (Some ''2024-09-03T12:34:56Z'') (Some (Finite 0)) (Some ''tea''))) =
       ErrorBody (Error ''Valor e obrigatorio!'')
   \<and> (2::int) \<noteq> 0 \<and> ''yesterday'' \<noteq> [] \<and> Finite (7 / 2) \<noteq> Finite 0
   \<and> date_getTime sample_runtime ''yesterday'' = None
   \<and> create sample_runtime sample_store (Some 2) (Some ''yesterday'') (Some (Finite (7 / 2)))
        (Some ''tea'') = (sample_store, catch400 (Error ''Formato de data invalido!''))
   \<and> date_getTime sample_runtime ''2024-09-03T12:34:56Z'' = Some 1725366896000
   \<and> accepts_DateTime sample_runtime 1725366896000
   \<and> int4 2
   \<and> prisma_user_findUnique_id sample_store 2 = Some bob
   \<and> snd (create sample_runtime sample_store (Some 2) (Some ''2024-09-03T12:34:56Z'')
        (Some (Finite (7 / 2))) (Some ''tea'')) =
       \<lparr>statusCode = 201,
        payload = MessageBody ''Gasto cadastrado com sucesso!'' (IdData 2)\<rparr>
   \<and> spending_table (fst (create sample_runtime sample_store (Some 2)
        (Some ''2024-09-03T12:34:56Z'') (Some (Finite (7 / 2))) (Some ''tea''))) =
       [coffee,
        \<lparr>spending_id = 2, spending_name = ''tea'', spending_day = 1725366896000,
          spending_value = Finite (7 / 2), spending_userId = 2\<rparr>]
   \<and> (9::int) \<noteq> 0 \<and> int4 9
   \<and> prisma_user_findUnique_id sample_store 9 = None
   \<and> snd (create sample_runtime sample_store (Some 9) (Some ''2024-09-03T12:34:56Z'')
        (Some (Finite (7 / 2))) (Some ''tea'')) = catch400 (PrismaError P2003)
   \<and> spending_table (fst (create sample_runtime sample_store (Some 9)
        (Some ''2024-09-03T12:34:56Z'') (Some (Finite (7 / 2))) (Some ''tea''))) = [coffee]
   \<and> PosInfinity \<noteq> Finite 0
   \<and> statusCode (snd (create sample_runtime sample_store (Some 2)
        (Some ''2024-09-03T12:34:56Z'') (Some PosInfinity) (Some ''tea''))) = 400
   \<and> spending_table (fst (create sample_runtime sample_store (Some 2)
        (Some ''2024-09-03T12:34:56Z'') (Some PosInfinity) (Some ''tea''))) = [coffee]
   \<and> (2147483648::int) \<noteq> 0 \<and> \<not> int4 2147483648
   \<and> statusCode (snd (create sample_runtime sample_store (Some 2147483648)
        (Some ''2024-09-03T12:34:56Z'') (Some (Finite (7 / 2))) (Some ''tea''))) = 400
   \<and> spending_table (fst (create sample_runtime sample_store (Some 2147483648)
        (Some ''2024-09-03T12:34:56Z'') (Some (Finite (7 / 2))) (Some ''tea''))) = [coffee]
   \<and> ''-100000-01-01T00:00:00.000Z'' \<noteq> []
   \<and> date_getTime sample_runtime ''-100000-01-01T00:00:00.000Z'' = Some (- 3217862419200000)
   \<and> \<not> accepts_DateTime sample_runtime (- 3217862419200000)
   \<and> statusCode (snd (create sample_runtime sample_store (Some 2)
        (Some ''-100000-01-01T00:00:00.000Z'') (Some (Finite (7 / 2))) (Some ''tea''))) = 400
   \<and> spending_table (fst (create sample_runtime sample_store (Some 2)
        (Some ''-100000-01-01T00:00:00.000Z'') (Some (Finite (7 / 2))) (Some ''tea''))) =
       [coffee]"
proof -
  have nz: "(2::int) \<noteq> 0" "(9::int) \<noteq> 0" "''yesterday'' \<noteq> []"
    "Finite (7 / 2) \<noteq> Finite 0" "PosInfinity \<noteq> Finite 0" "''2024-09-03T12:34:56Z'' \<noteq> []"
    "(2147483648::int) \<noteq> 0" "''-100000-01-01T00:00:00.000Z'' \<noteq> []"
    by simp_all
  have dates: "date_getTime sample_runtime ''yesterday'' = None"
    "date_getTime sample_runtime ''2024-09-03T12:34:56Z'' = Some 1725366896000"
    "accepts_DateTime sample_runtime 1725366896000"
    "date_getTime sample_runtime ''-100000-01-01T00:00:00.000Z'' = Some (- 3217862419200000)"
    "\<not> accepts_DateTime sample_runtime (- 3217862419200000)"
    by (simp_all add: sample_defs)
  have rng: "int4 2" "int4 9" "\<not> int4 2147483648" by (simp_all add: int4_def)
  have users: "prisma_user_findUnique_id sample_store 2 = Some bob"
    "prisma_user_findUnique_id sample_store 9 = None"
    by (simp_all add: prisma_user_findUnique_id_def sample_defs)
  have tables: "spending_table sample_store = [coffee]" "spending_id_seq sample_store = 1"
    by (simp_all add: sample_defs)
  have zero: "payload (snd (create sample_runtime sample_store (Some 2)
         (Some ''2024-09-03T12:34:56Z'') (Some (Finite 0)) (Some ''tea''))) =
       ErrorBody (Error ''Valor e obrigatorio!'')"
    by (simp add: create_def js_defs)
  show ?thesis
    using create_results [of "Some 2" "Some ''2024-09-03T12:34:56Z''" "Some (Finite 0)"
        sample_runtime sample_store "Some ''tea''" 2 "''yesterday''" "Finite (7 / 2)" "7 / 2"
        "''tea''"]
      create_results [of None None None sample_runtime sample_store None
        2 "''2024-09-03T12:34:56Z''" "Finite (7 / 2)" "7 / 2" "''tea''"]
      create_results [of None None None sample_runtime sample_store None
        9 "''2024-09-03T12:34:56Z''" "Finite (7 / 2)" "7 / 2" "''tea''"]
      create_results [of None None None sample_runtime sample_store None
        2 "''2024-09-03T12:34:56Z''" PosInfinity 0 "''tea''"]
      create_results [of None None None sample_runtime sample_store None
        2147483648 "''2024-09-03T12:34:56Z''" "Finite (7 / 2)" "7 / 2" "''tea''"]
      create_results [of None None None sample_runtime sample_store None
        2 "''-100000-01-01T00:00:00.000Z''" "Finite (7 / 2)" "7 / 2" "''tea''"]
      nz dates rng users tables zero
    by simp
qed

text \<open>
  Claim C7 as stated promises a stored spending whenever the checks pass, also without a
  name.  With all checks passed and a parseable day, none of these requests stores
  anything, and each is answered with 400: Alice's request without a name (\<open>name\<close> is a
  required \<open>String\<close> of the model); the request for user 9, who does not exist (foreign
  key); Bob's request with the value \<open>Infinity\<close>, the JSON number \<open>1e400\<close> (no \<open>Float\<close>
  the client takes); the request for the user id 2147483648 (outside the 32-bit \<open>Int\<close>);
  and Bob's request for the first day of the year -100000 (before the first day a
  \<open>TIMESTAMP\<close> column holds).
\<close>

theorem create_otherwise_counterexample:
  "prisma_user_findUnique_id sample_store 1 = Some alice
   \<and> date_getTime sample_runtime ''2024-09-03T12:34:56Z'' = Some 1725366896000
   \<and> create sample_runtime sample_store (Some 1) (Some ''2024-09-03T12:34:56Z'')
        (Some (Finite 10)) None =
       (sample_store, catch400 (PrismaError PrismaClientValidationError))
   \<and> prisma_user_findUnique_id sample_store 9 = None
   \<and> snd (create sample_runtime sample_store (Some 9) (Some ''2024-09-03T12:34:56Z'')
        (Some (Finite 10)) (Some ''tea'')) = catch400 (PrismaError P2003)
   \<and> spending_table (fst (create sample_runtime sample_store (Some 9)
        (Some ''2024-09-03T12:34:56Z'') (Some (Finite 10)) (Some ''tea''))) =
       spending_table sample_store
   \<and> prisma_user_findUnique_id sample_store 2 = Some bob
   \<and> create sample_runtime sample_store (Some 2) (Some ''2024-09-03T12:34:56Z'')
        (Some PosInfinity) (Some ''tea'') =
       (sample_store, catch400 (PrismaError PrismaClientValidationError))
   \<and> create sample_runtime sample_store (Some 2147483648) (Some ''2024-09-03T12:34:56Z'')
        (Some (Finite 10)) (Some ''tea'') =
       (sample_store, catch400 (PrismaError ValueOutOfRange))
   \<and> date_getTime sample_runtime ''-100000-01-01T00:00:00.000Z'' = Some (- 3217862419200000)
   \<and> statusCode (snd (create sample_runtime sample_store (Some 2)
        (Some ''-100000-01-01T00:00:00.000Z'') (Some (Finite 10)) (Some ''tea''))) = 400
   \<and> spending_table (fst (create sample_runtime sample_store (Some 2)
        (Some ''-100000-01-01T00:00:00.000Z'') (Some (Finite 10)) (Some ''tea''))) =
       spending_table sample_store"
  by (simp add: create_def prisma_defs js_defs sample_defs Let_def)

text \<open>
  Claim C6.  Round trip: if \<open>create\<close> succeeds (status 201) and \<open>listByUser\<close> is then
  asked, on the resulting store, for the same user (the path parameter is numeric and
  reads as the \<open>userId\<close> of the request), a response is sent: it is 200 with a list that
  contains a spending whose day is the parsed timestamp of the supplied string and whose
  value, name and userId are the supplied ones.
\<close>

theorem create_then_listByUser:
  assumes "create rt s userId day val name = (s', r)"
    and "statusCode r = 201"
    and "\<not> isNaN rt p" and "parseInt rt p = userId"
  shows "\<exists>rows sp d.
           listByUser rt s' p =
             Some \<lparr>statusCode = 200,
                   payload = MessageBody ''Lista de gastos obtidas com sucesso!''
                               (SpendingList rows)\<rparr>
           \<and> sp \<in> set rows
           \<and> day = Some d \<and> date_getTime rt d = Some (spending_day sp)
           \<and> val = Some (spending_value sp)
           \<and> name = Some (spending_name sp)
           \<and> userId = Some (spending_userId sp)"
proof -
  from assms(1,2) obtain u d v n t where
    args: "userId = Some u" "day = Some d" "val = Some v" "name = Some n"
      "date_getTime rt d = Some t" "int4 u"
    and tab: "spending_table s' = spending_table s @
        [\<lparr>spending_id = spending_id_seq s + 1, spending_name = n, spending_day = t,
          spending_value = v, spending_userId = u\<rparr>]"
    by (auto simp: create_def prisma_spending_create_def Let_def js_defs
        split: if_splits option.splits number.splits)
  let ?sp = "\<lparr>spending_id = spending_id_seq s + 1, spending_name = n, spending_day = t,
          spending_value = v, spending_userId = u\<rparr>"
  have "listByUser rt s' p =
      Some \<lparr>statusCode = 200,
            payload = MessageBody ''Lista de gastos obtidas com sucesso!''
                        (SpendingList (spendings_of s' u))\<rparr>"
    using assms(3,4) args(1,6) by (simp add: listByUser_def prisma_spending_findMany_def)
  moreover have "?sp \<in> set (spendings_of s' u)"
    by (simp add: spendings_of_def tab)
  ultimately show ?thesis
    using args by (intro exI [of _ "spendings_of s' u"] exI [of _ ?sp] exI [of _ d]) simp
qed

text \<open>Bob records a tea and lists his spendings.\<close>

theorem create_then_listByUser_witness:
  "statusCode (snd (create sample_runtime sample_store (Some 2) (Some ''2024-09-03T12:34:56Z'')
      (Some (Finite (7 / 2))) (Some ''tea''))) = 201
   \<and> \<not> isNaN sample_runtime ''2'' \<and> parseInt sample_runtime ''2'' = Some 2
   \<and> (\<exists>rows sp.
         listByUser sample_runtime
           (fst (create sample_runtime sample_store (Some 2) (Some ''2024-09-03T12:34:56Z'')
                  (Some (Finite (7 / 2))) (Some ''tea''))) ''2'' =
           Some \<lparr>statusCode = 200,
                 payload = MessageBody ''Lista de gastos obtidas com sucesso!''
                             (SpendingList rows)\<rparr>
         \<and> sp \<in> set rows
         \<and> date_getTime sample_runtime ''2024-09-03T12:34:56Z'' = Some (spending_day sp)
         \<and> spending_value sp = Finite (7 / 2)
         \<and> spending_name sp = ''tea''
         \<and> spending_userId sp = 2)"
proof -
  let ?c = "create sample_runtime sample_store (Some 2) (Some ''2024-09-03T12:34:56Z'')
      (Some (Finite (7 / 2))) (Some ''tea'')"
  have run: "?c = (fst ?c, snd ?c)" by simp
  have ok: "statusCode (snd ?c) = 201"
    by (simp add: create_def prisma_defs js_defs sample_defs Let_def)
  have num: "\<not> isNaN sample_runtime ''2''"
    and val: "parseInt sample_runtime ''2'' = Some 2"
    by (simp_all add: sample_defs)
  show ?thesis
    using create_then_listByUser [OF run ok num val] ok num val by auto
qed

section \<open>Registration\<close>

text \<open>
  Claim C2.  Once the presence checks of \<open>register\<close> have passed, the guard
  \<open>existUser != null\<close> is applied to the pending query and is satisfied whatever the
  query would resolve to.  So the handler always goes on to \<open>prisma.user.create\<close> with the
  hashed password, its answer is the outcome of that call, and the branch answering 400
  with \<open>Email ja\<close> is never taken.  For a fresh email the user is stored and the answer is
  201 with the new id; for an email already registered the handler does not reject the
  request itself: the create call is made and it is its unique-constraint error that the
  \<open>catch\<close> block turns into the answer.
\<close>

theorem register_always_creates:
  assumes "n \<noteq> []" and "e \<noteq> []" and "p \<noteq> []"
  shows "promise_neq_null (PrismaPromise (prisma_user_findUnique_email s e))
       \<and> register rt salt s (Some n) (Some e) (Some p) =
           (case prisma_user_create s n e (hashSync rt p salt) of
              (s1, Inl err) \<Rightarrow> (s1, catch400 (PrismaError err))
            | (s1, Inr user) \<Rightarrow>
                (s1, \<lparr>statusCode = 201,
                      payload = MessageBody ''Usuario cadastrado com sucesso!''
                                  (IdData (user_id user))\<rparr>))
       \<and> snd (register rt salt s (Some n) (Some e) (Some p)) \<noteq>
           \<lparr>statusCode = 400, payload = ErrorBody (Error ''Email ja'')\<rparr>
       \<and> (if prisma_user_findUnique_email s e = None
          then snd (register rt salt s (Some n) (Some e) (Some p)) =
                 \<lparr>statusCode = 201,
                  payload = MessageBody ''Usuario cadastrado com sucesso!''
                              (IdData (user_id_seq s + 1))\<rparr>
               \<and> user_table (fst (register rt salt s (Some n) (Some e) (Some p))) =
                   user_table s @
                     [\<lparr>user_id = user_id_seq s + 1, user_name = n, user_email = e,
                       user_password = hashSync rt p salt, user_groupId = None\<rparr>]
          else snd (register rt salt s (Some n) (Some e) (Some p)) = catch400 (PrismaError P2002)
               \<and> user_table (fst (register rt salt s (Some n) (Some e) (Some p))) =
                   user_table s)"
proof -
  have reg: "register rt salt s (Some n) (Some e) (Some p) =
      (case prisma_user_create s n e (hashSync rt p salt) of
         (s1, Inl err) \<Rightarrow> (s1, catch400 (PrismaError err))
       | (s1, Inr user) \<Rightarrow>
           (s1, \<lparr>statusCode = 201,
                 payload = MessageBody ''Usuario cadastrado com sucesso!''
                             (IdData (user_id user))\<rparr>))"
    using assms by (simp add: register_def falsy_str_def)
  show ?thesis
  proof (cases "prisma_user_findUnique_email s e = None")
    case True
    then show ?thesis
      by (simp add: reg prisma_user_create_def Let_def)
  next
    case False
    then show ?thesis
      by (simp add: reg prisma_user_create_def Let_def catch400_def)
  qed
qed

text \<open>Alice's email is registered, Dave's is not.\<close>

theorem register_always_creates_witness:
  "''Alice'' \<noteq> [] \<and> ''alice@example.com'' \<noteq> [] \<and> ''dave@example.com'' \<noteq> []
   \<and> ''rabbit'' \<noteq> []
   \<and> prisma_user_findUnique_email sample_store ''alice@example.com'' = Some alice
   \<and> register sample_runtime ''$s$'' sample_store (Some ''Alice'') (Some ''alice@example.com'')
        (Some ''rabbit'') =
       (sample_store\<lparr>user_id_seq := 4\<rparr>, catch400 (PrismaError P2002))
   \<and> prisma_user_findUnique_email sample_store ''dave@example.com'' = None
   \<and> snd (register sample_runtime ''$s$'' sample_store (Some ''Dave'') (Some ''dave@example.com'')
        (Some ''rabbit'')) =
       \<lparr>statusCode = 201,
        payload = MessageBody ''Usuario cadastrado com sucesso!'' (IdData 4)\<rparr>
   \<and> user_table (fst (register sample_runtime ''$s$'' sample_store (Some ''Dave'')
        (Some ''dave@example.com'') (Some ''rabbit''))) =
       [alice, bob, carol,
        \<lparr>user_id = 4, user_name = ''Dave'', user_email = ''dave@example.com'',
          user_password = ''$s$rabbit'', user_groupId = None\<rparr>]"
proof -
  have ne: "''Alice'' \<noteq> []" "''Dave'' \<noteq> []" "''alice@example.com'' \<noteq> []"
    "''dave@example.com'' \<noteq> []" "''rabbit'' \<noteq> []"
    by simp_all
  have look: "prisma_user_findUnique_email sample_store ''alice@example.com'' = Some alice"
    "prisma_user_findUnique_email sample_store ''dave@example.com'' = None"
    by (simp_all add: prisma_user_findUnique_email_def sample_defs)
  have crt: "prisma_user_create sample_store ''Alice'' ''alice@example.com''
      (hashSync sample_runtime ''rabbit'' ''$s$'') = (sample_store\<lparr>user_id_seq := 4\<rparr>, Inl P2002)"
    by (simp add: prisma_user_create_def look Let_def) (simp add: sample_store_def)
  have tab: "user_table sample_store = [alice, bob, carol]" "user_id_seq sample_store = 3"
    "hashSync sample_runtime ''rabbit'' ''$s$'' = ''$s$rabbit''"
    by (simp_all add: sample_store_def sample_runtime_def)
  show ?thesis
    using register_always_creates [OF ne(1) ne(3) ne(5), of sample_store sample_runtime "''$s$''"]
      register_always_creates [OF ne(2) ne(4) ne(5), of sample_store sample_runtime "''$s$''"]
      ne look crt tab
    by (simp add: prisma_user_create_def Let_def)
qed

section \<open>Creating a group\<close>

text \<open>A request whose group name is taken is rejected and the store is unchanged.\<close>

lemma createGroup_duplicate_name:
  assumes "u \<noteq> 0" and "n \<noteq> []" and "p \<noteq> []"
    and "prisma_group_findUnique_name s n = Some g"
  shows "createGroup rt salt s (Some u) (Some n) (Some p) =
           (s, catch400 (Error ''Ja existe um grupo com esse nome!''))"
  using assms by (simp add: createGroup_def falsy_int_def falsy_str_def)

text \<open>
  The membership update leaves every user whose id is not the new group's id as it was;
  in particular the creator, unless the creator's id happens to be the next value of the
  group sequence.
\<close>

lemma find_other_user:
  "j \<noteq> i \<Longrightarrow>
   find (\<lambda>u. user_id u = j)
     (map (\<lambda>x. if user_id x = i then x\<lparr>user_groupId := g\<rparr> else x) xs) =
   find (\<lambda>u. user_id u = j) xs"
  by (induction xs) auto

lemma createGroup_creator_untouched:
  assumes "u \<noteq> group_id_seq s + 1"
  shows "prisma_user_findUnique_id (fst (createGroup rt salt s userId name password)) u =
         prisma_user_findUnique_id s u"
  using assms
  by (auto simp: createGroup_def prisma_group_create_def prisma_user_update_groupId_def
      prisma_user_findUnique_id_def Let_def find_other_user split: option.splits)

text \<open>
  Claim C1 says that after a successful \<open>createGroup\<close> the user identified by the
  supplied \<open>userId\<close> has the new group's id as groupId.  The handler looks the user up by
  the new group's id instead.  On the sample database Alice (user 1) creates the group
  \<open>trip\<close>, which gets the id 3: the answer is 201, the group is stored, Carol (user 3)
  becomes its member and Alice's groupId is still \<open>NULL\<close>.
\<close>

theorem createGroup_updates_wrong_user:
  "prisma_group_findUnique_name sample_store ''trip'' = None
   \<and> snd (createGroup sample_runtime ''$s$'' sample_store (Some 1) (Some ''trip'') (Some ''pw'')) =
       \<lparr>statusCode = 201, payload = MessageBody ''Grupo cadastrado com sucesso!'' (IdData 3)\<rparr>
   \<and> group_table (fst (createGroup sample_runtime ''$s$'' sample_store (Some 1) (Some ''trip'')
        (Some ''pw''))) =
       [family, flat, \<lparr>group_id = 3, group_name = ''trip'', group_password = ''$s$pw''\<rparr>]
   \<and> user_table (fst (createGroup sample_runtime ''$s$'' sample_store (Some 1) (Some ''trip'')
        (Some ''pw''))) =
       [alice, bob, carol\<lparr>user_groupId := Some 3\<rparr>]
   \<and> user_id alice = 1 \<and> user_groupId alice = None \<and> user_id carol = 3"
  by (simp add: createGroup_def prisma_defs js_defs sample_defs Let_def)

end
